theory Spec2Isabelle
  imports Main "HOL-Library.Sublist"
begin

section \<open>JavaScript string primitives\<close>

text \<open>
  Strings are lists of code units; the model covers code units below 256.
  \<open>toLowerCase\<close> maps the letters A to Z and the code units 0xC0 to 0xDE other than
  0xD7 to their lower-case forms, as JavaScript does on this range. \<open>toUpperCase\<close>
  maps the letters a to z and the code units 0xE0 to 0xFE other than 0xF7 to their
  upper-case forms and 0xDF to "SS"; the upper-case forms of 0xB5 and 0xFF are code units
  above 255, which the model cannot hold, and these two are left as they are.
  \<open>trim\<close> strips the white space and line terminators of the range from both ends,
  \<open>includesStr s p\<close> is \<open>s.includes(p)\<close>, \<open>substring0 s n\<close> is
  \<open>s.substring(0, n)\<close> and \<open>String_nat n\<close> is the decimal text a template literal
  prints for the non-negative integer \<open>n\<close>.
\<close>

definition upperLetters :: string where
  "upperLetters =
     ''ABCDEFGHIJKLMNOPQRSTUVWXYZ'' @
     [
      CHR 0xC0, CHR 0xC1, CHR 0xC2, CHR 0xC3, CHR 0xC4, CHR 0xC5, CHR 0xC6, CHR 0xC7,
      CHR 0xC8, CHR 0xC9, CHR 0xCA, CHR 0xCB, CHR 0xCC, CHR 0xCD, CHR 0xCE, CHR 0xCF,
      CHR 0xD0, CHR 0xD1, CHR 0xD2, CHR 0xD3, CHR 0xD4, CHR 0xD5, CHR 0xD6, CHR 0xD8,
      CHR 0xD9, CHR 0xDA, CHR 0xDB, CHR 0xDC, CHR 0xDD, CHR 0xDE]"

definition lowerLetters :: string where
  "lowerLetters =
     ''abcdefghijklmnopqrstuvwxyz'' @
     [
      CHR 0xE0, CHR 0xE1, CHR 0xE2, CHR 0xE3, CHR 0xE4, CHR 0xE5, CHR 0xE6, CHR 0xE7,
      CHR 0xE8, CHR 0xE9, CHR 0xEA, CHR 0xEB, CHR 0xEC, CHR 0xED, CHR 0xEE, CHR 0xEF,
      CHR 0xF0, CHR 0xF1, CHR 0xF2, CHR 0xF3, CHR 0xF4, CHR 0xF5, CHR 0xF6, CHR 0xF8,
      CHR 0xF9, CHR 0xFA, CHR 0xFB, CHR 0xFC, CHR 0xFD, CHR 0xFE]"

definition lowerChar :: "char \<Rightarrow> char" where
  "lowerChar c = (case map_of (zip upperLetters lowerLetters) c of Some l \<Rightarrow> l | None \<Rightarrow> c)"

definition upperChar :: "char \<Rightarrow> string" where
  "upperChar c =
     (if c = CHR 0xDF then ''SS''
      else (case map_of (zip lowerLetters upperLetters) c of Some u \<Rightarrow> [u] | None \<Rightarrow> [c]))"

definition toLowerCase :: "string \<Rightarrow> string" where
  "toLowerCase s = map lowerChar s"

definition toUpperCase :: "string \<Rightarrow> string" where
  "toUpperCase s = concat (map upperChar s)"

fun includesStr :: "string \<Rightarrow> string \<Rightarrow> bool" where
  "includesStr [] p = (p = [])"
| "includesStr (c # cs) p = (take (length p) (c # cs) = p \<or> includesStr cs p)"

definition isWhitespace :: "char \<Rightarrow> bool" where
  "isWhitespace c = ((of_char c :: nat) \<in> {9, 10, 11, 12, 13, 32, 160})"

definition trim :: "string \<Rightarrow> string" where
  "trim s = rev (dropWhile isWhitespace (rev (dropWhile isWhitespace s)))"

definition substring0 :: "string \<Rightarrow> nat \<Rightarrow> string" where
  "substring0 s n = take n s"

function String_nat :: "nat \<Rightarrow> string" where
  "String_nat n =
     (if n < 10 then [''0123456789'' ! n]
      else String_nat (n div 10) @ [''0123456789'' ! (n mod 10)])"
  by pat_completeness auto
termination
  by (relation "measure id") auto

declare String_nat.simps [simp del]

definition newline :: string where
  "newline = [CHR 0x0A]"


section \<open>Messages, requests and responses of the generation API\<close>

text \<open>
  A source citation \<open>{uri, title}\<close>; either field is \<open>None\<close> where the JavaScript value
  is \<open>undefined\<close>.
\<close>

record source =
  uri :: "string option"
  title :: "string option"

text \<open>
  One element of \<open>parts\<close>: \<open>{text}\<close> or \<open>{text, sources}\<close>; \<open>part_text\<close> is
  its \<open>text\<close>.
\<close>

record part =
  part_text :: string
  sources :: "source list option"

text \<open>
  One element of \<open>contents\<close> or of a thread history: \<open>{role, parts}\<close>; the quiz
  request's single content has no role.
\<close>

record message =
  role :: "string option"
  parts :: "part list"

text \<open>
  The request body. \<open>tools\<close> is \<open>None\<close> where the object has no such key;
  \<open>generationConfig\<close> holds the \<open>responseMimeType\<close> of a structured request (the
  response schema that goes with it is a constant of the source and declares the shape
  that \<open>quiz\<close> below has).
\<close>

record payload =
  contents :: "message list"
  tools :: "string list option"
  systemInstruction :: string
  generationConfig :: "string option"

text \<open>
  What the provider sends back. \<open>candidateText\<close> is
  \<open>result.candidates?.[0]?.content?.parts?.[0]?.text\<close>. The grounding attributions are
  absent (\<open>NoAttributions\<close>: no \<open>groundingMetadata\<close> or no \<open>groundingAttributions\<close>
  in it), a list of entries with \<open>attr.web?.uri\<close> and \<open>attr.web?.title\<close>, or a truthy
  value on which \<open>.map\<close> or \<open>attr.web\<close> raises a TypeError
  (\<open>MalformedAttributions\<close>).
\<close>

record attribution =
  web_uri :: "string option"
  web_title :: "string option"

datatype grounding = NoAttributions | MalformedAttributions | Attributions "attribution list"

record api_result =
  candidateText :: "string option"
  groundingAttributions :: grounding

text \<open>
  The outcome of one \<open>await fetch(...)\<close> followed by \<open>await response.json()\<close>:
  the fetch rejects, or there is a response with its \<open>ok\<close> flag, its status and its
  body (\<open>None\<close> where \<open>response.json()\<close> rejects or yields a value whose
  \<open>candidates\<close> cannot be read).
\<close>

datatype http_result = FetchRejected | HttpResponse bool nat "api_result option"

text \<open>
  The network is a parameter \<open>fetch\<close>: the outcome of the attempt with index \<open>i\<close>
  of a call that sends \<open>payload\<close>.
\<close>

type_synonym network = "payload \<Rightarrow> nat \<Rightarrow> http_result"

text \<open>How an asynchronous function ends: it returns a value or throws an Error.\<close>

datatype 'a outcome = Returned 'a | Thrown string


section \<open>Quiz data\<close>

text \<open>
  A question as the response schema declares it (\<open>id\<close>, \<open>type\<close>, \<open>question\<close> and
  \<open>explanation\<close> required; \<open>options\<close>, \<open>correctAnswer\<close> and \<open>modelAnswer\<close>
  optional), with the \<open>userAnswer\<close> field that \<open>handleGenerate\<close> adds.
\<close>

record quiz_question =
  qid :: string
  qtype :: string
  question :: string
  options :: "string list option"
  correctAnswer :: "string option"
  modelAnswer :: "string option"
  explanation :: string
  userAnswer :: "string option"

record quiz =
  quizTitle :: string
  questions :: "quiz_question list"

text \<open>
  The value of \<open>JSON.parse(textJson)\<close>, taken at the shape that the response schema
  declares: a quiz object, or a value on which \<open>result.questions.map\<close> raises a
  TypeError (\<open>null\<close>, or a value without an array of questions).
\<close>

datatype parsed = NotAQuiz | IsQuiz quiz

text \<open>The attempt that \<open>handleSubmit\<close> passes to \<open>saveProgress\<close>.\<close>

record attempt =
  attempt_type :: string
  attempt_score :: nat
  attempt_total :: nat
  timestamp :: nat
  attempt_quizTitle :: string

text \<open>The effects a handler has on the world outside the component state, in order.\<close>

datatype effect =
    Fetch payload
  | Sleep nat
  | ConsoleWarn string
  | ConsoleError string
  | Alert string
  | SaveProgress attempt


section \<open>fetchQuiz\<close>

definition systemPrompt :: "string \<Rightarrow> string" where
  "systemPrompt quizType =
     (if quizType = ''mcq'' then
        ''You are an expert educational content generator. Based on the provided text, generate exactly 3 highly relevant and challenging Multiple Choice Questions (MCQs). Each question must have exactly 4 options and one correct answer. Respond ONLY with the JSON structure provided.''
      else if quizType = ''saq'' then
        ''You are an expert educational content generator. Based on the provided text, generate exactly 3 challenging Short Answer Questions (SAQs). Each question should require a 1-3 sentence answer. Respond ONLY with the JSON structure provided.''
      else
        ''You are an expert educational content generator. Based on the provided text, generate exactly 2 challenging Long Answer Questions (LAQs). Each question should require a paragraph-long answer. Respond ONLY with the JSON structure provided.'')"

definition userQuery :: "string \<Rightarrow> string" where
  "userQuery quizType =
     (if quizType = ''mcq'' then
        ''Generate a set of 3 MCQs (Multiple Choice Questions) based on the following course material text. Provide a brief, concise explanation for each correct answer.''
      else if quizType = ''saq'' then
        ''Generate a set of 3 SAQs (Short Answer Questions) based on the following course material text. Provide a model answer and a brief explanation for context.''
      else
        ''Generate a set of 2 LAQs (Long Answer Questions) based on the following course material text. Provide a model answer and a brief explanation for context.'')"

definition quizPayload :: "string \<Rightarrow> string \<Rightarrow> payload" where
  "quizPayload txt quizType =
     \<lparr>contents =
        [\<lparr>role = None,
          parts = [\<lparr>part_text = userQuery quizType @ newline @ newline @ ''Course Material:''
                      @ newline @ ''---'' @ newline @ txt,
                    sources = None\<rparr>]\<rparr>],
      tools = None,
      systemInstruction = systemPrompt quizType,
      generationConfig = Some ''application/json''\<rparr>"

text \<open>
  The body of the \<open>try\<close> block of one attempt: \<open>Inr\<close> the value returned,
  \<open>Inl\<close> the message of the Error that the \<open>catch\<close> receives. \<open>JSON_parse\<close> is
  \<open>JSON.parse\<close> at the declared shape, \<open>None\<close> where it raises a SyntaxError.
\<close>

definition quizAttempt :: "(string \<Rightarrow> parsed option) \<Rightarrow> http_result \<Rightarrow> string + parsed" where
  "quizAttempt JSON_parse r =
     (case r of
        FetchRejected \<Rightarrow> Inl ''Failed to fetch''
      | HttpResponse ok status b \<Rightarrow>
          if \<not> ok then Inl (''HTTP error! status: '' @ String_nat status)
          else
            (case b of
               None \<Rightarrow> Inl ''Unexpected response body''
             | Some result \<Rightarrow>
                 (case candidateText result of
                    None \<Rightarrow> Inl ''Invalid response structure from API.''
                  | Some textJson \<Rightarrow>
                      if textJson \<noteq> [] then
                        (case JSON_parse textJson of
                           None \<Rightarrow> Inl ''SyntaxError''
                         | Some v \<Rightarrow> Inr v)
                      else Inl ''Invalid response structure from API.'')))"

text \<open>
  The retry loop \<open>for (let i = 0; i < 3; i++)\<close>, as a recursion over the indices that
  are left. Falling out of the loop returns \<open>undefined\<close>, which is not a quiz.
\<close>

fun fetchQuiz_loop ::
  "(string \<Rightarrow> parsed option) \<Rightarrow> network \<Rightarrow> payload \<Rightarrow> nat list \<Rightarrow> parsed outcome \<times> effect list"
where
  "fetchQuiz_loop JSON_parse fetch p [] = (Returned NotAQuiz, [])"
| "fetchQuiz_loop JSON_parse fetch p (i # rest) =
     (case quizAttempt JSON_parse (fetch p i) of
        Inr v \<Rightarrow> (Returned v, [Fetch p])
      | Inl err \<Rightarrow>
          if i = 2 then
            (Thrown ''Failed to generate quiz after multiple retries.'',
             [Fetch p, ConsoleError (''Attempt '' @ String_nat (i + 1) @ '' failed:'')])
          else
            (case fetchQuiz_loop JSON_parse fetch p rest of
               (res, effs) \<Rightarrow>
                 (res,
                  [Fetch p, ConsoleError (''Attempt '' @ String_nat (i + 1) @ '' failed:''),
                   Sleep (2 ^ i * 1000)] @ effs)))"

definition fetchQuiz ::
  "(string \<Rightarrow> parsed option) \<Rightarrow> network \<Rightarrow> string \<Rightarrow> string \<Rightarrow> parsed outcome \<times> effect list"
where
  "fetchQuiz JSON_parse fetch txt quizType =
     fetchQuiz_loop JSON_parse fetch (quizPayload txt quizType) [0, 1, 2]"


section \<open>The QuizGenerator component\<close>

record quiz_state =
  quizData :: "quiz option"
  currentAnswers :: "string \<rightharpoonup> string"
  quizLoading :: bool
  quizType :: string
  isSubmitted :: bool
  score :: nat
  feedback :: string

text \<open>
  The field \<open>feedback\<close> is the state variable \<open>explanation\<close> of the component (the
  name is taken by the question's field). \<open>pdfLoading\<close> and \<open>pdfText\<close> are the
  component's props; \<open>pdfText\<close> is always a string, so it is truthy iff it is not empty.
\<close>

definition isQuizReady :: "bool \<Rightarrow> string \<Rightarrow> bool" where
  "isQuizReady pdfLoading pdfText = (\<not> pdfLoading \<and> pdfText \<noteq> [] \<and> length pdfText > 50)"

definition hasQuiz :: "quiz_state \<Rightarrow> bool" where
  "hasQuiz s = (case quizData s of None \<Rightarrow> False | Some q \<Rightarrow> length (questions q) > 0)"

text \<open>
  \<open>result.questions.map(q => ({...q, id: crypto.randomUUID(), userAnswer: ''}))\<close>;
  \<open>uuid i\<close> is the value of the call of \<open>crypto.randomUUID()\<close> for the question at
  index \<open>i\<close>.
\<close>

definition questionsWithIds :: "(nat \<Rightarrow> string) \<Rightarrow> quiz_question list \<Rightarrow> quiz_question list" where
  "questionsWithIds uuid qs =
     map (\<lambda>(i, q). q\<lparr>qid := uuid i, userAnswer := Some []\<rparr>) (enumerate 0 qs)"

text \<open>
  \<open>handleGenerate\<close> is asynchronous: it runs up to \<open>await fetchQuiz(...)\<close>, and
  the rest runs when that call has ended, on the state that the component has by then.
  Other handlers, and further calls of \<open>handleGenerate\<close> itself (the handler tests
  \<open>isQuizReady\<close> only, and the effect on \<open>isQuizReady\<close> may call it while a call
  is pending), can run in between. The two halves are therefore separate functions.

  What a pending call holds across its \<open>await\<close>: the arguments of \<open>fetchQuiz\<close>.
\<close>

record pending_generate =
  genText :: string
  genType :: string

text \<open>The state updates of \<open>handleGenerate\<close> before \<open>await fetchQuiz(...)\<close>.\<close>

definition handleGenerate_start :: "quiz_state \<Rightarrow> quiz_state" where
  "handleGenerate_start s =
     s\<lparr>quizLoading := True, quizData := None, isSubmitted := False, score := 0, feedback := []\<rparr>"

text \<open>
  \<open>handleGenerate\<close> up to its \<open>await\<close>: the readiness gate, then the state
  updates; the second component is the call of \<open>fetchQuiz\<close> now pending, if any.
\<close>

definition handleGenerate_begin ::
  "bool \<Rightarrow> string \<Rightarrow> quiz_state \<Rightarrow> quiz_state \<times> pending_generate option \<times> effect list"
where
  "handleGenerate_begin pdfLoading pdfText s =
     (if \<not> isQuizReady pdfLoading pdfText then
        (s, None, [ConsoleWarn ''PDF text is not available or too short.''])
      else
        (handleGenerate_start s, Some \<lparr>genText = pdfText, genType = quizType s\<rparr>, []))"

text \<open>
  The rest of \<open>handleGenerate\<close>, once \<open>fetchQuiz\<close> has ended with \<open>out\<close>: the
  \<open>try\<close> block's continuation, the \<open>catch\<close> and the \<open>finally\<close>, on the state
  \<open>s\<close> of that moment.
\<close>

definition handleGenerate_finish ::
  "(nat \<Rightarrow> string) \<Rightarrow> parsed outcome \<Rightarrow> quiz_state \<Rightarrow> quiz_state \<times> effect list"
where
  "handleGenerate_finish uuid out s =
     (case out of
        Returned (IsQuiz result) \<Rightarrow>
          (s\<lparr>quizData := Some (result\<lparr>questions := questionsWithIds uuid (questions result)\<rparr>),
             currentAnswers := Map.empty,
             quizLoading := False\<rparr>, [])
      | Returned NotAQuiz \<Rightarrow>
          (s\<lparr>quizLoading := False\<rparr>,
           [ConsoleError ''Quiz generation failed:'',
            Alert ''Quiz generation failed. Check console for details.''])
      | Thrown err \<Rightarrow>
          (s\<lparr>quizLoading := False\<rparr>,
           [ConsoleError ''Quiz generation failed:'',
            Alert ''Quiz generation failed. Check console for details.'']))"

text \<open>
  A pending call from its \<open>await\<close> on: the retry loop of \<open>fetchQuiz\<close> on the
  arguments the call holds, then the rest of the handler on the state \<open>s\<close> that the
  component has when the call settles.
\<close>

definition handleGenerate_settle ::
  "(string \<Rightarrow> parsed option) \<Rightarrow> network \<Rightarrow> (nat \<Rightarrow> string) \<Rightarrow> pending_generate \<Rightarrow> quiz_state
     \<Rightarrow> quiz_state \<times> effect list"
where
  "handleGenerate_settle JSON_parse fetch uuid call s =
     (case fetchQuiz JSON_parse fetch (genText call) (genType call) of
        (out, effs) \<Rightarrow>
          (case handleGenerate_finish uuid out s of
             (s', effs') \<Rightarrow> (s', effs @ effs')))"

text \<open>
  A call of \<open>handleGenerate\<close> that settles before any other handler runs: the first
  half, and the second half on the state that the first half left.
\<close>

definition handleGenerate ::
  "(string \<Rightarrow> parsed option) \<Rightarrow> network \<Rightarrow> (nat \<Rightarrow> string) \<Rightarrow> bool \<Rightarrow> string \<Rightarrow> quiz_state
     \<Rightarrow> quiz_state \<times> effect list"
where
  "handleGenerate JSON_parse fetch uuid pdfLoading pdfText s =
     (case handleGenerate_begin pdfLoading pdfText s of
        (s1, None, effs) \<Rightarrow> (s1, effs)
      | (s1, Some call, effs) \<Rightarrow>
          (case handleGenerate_settle JSON_parse fetch uuid call s1 of
             (s2, effs') \<Rightarrow> (s2, effs @ effs')))"

text \<open>The number of network calls among the effects.\<close>

definition fetchCount :: "effect list \<Rightarrow> nat" where
  "fetchCount effs = length (filter (\<lambda>e. case e of Fetch p \<Rightarrow> True | _ \<Rightarrow> False) effs)"

text \<open>The back-off delays among the effects, in milliseconds and in order.\<close>

definition sleeps :: "effect list \<Rightarrow> nat list" where
  "sleeps effs = concat (map (\<lambda>e. case e of Sleep ms \<Rightarrow> [ms] | _ \<Rightarrow> []) effs)"

text \<open>A state and oracles for the concrete instances below.\<close>

definition initialQuizState :: quiz_state where
  "initialQuizState =
     \<lparr>quizData = None, currentAnswers = Map.empty, quizLoading = False, quizType = ''mcq'',
      isSubmitted = False, score = 0, feedback = []\<rparr>"

definition offline :: network where
  "offline p i = FetchRejected"

definition noParse :: "string \<Rightarrow> parsed option" where
  "noParse t = None"

definition uuidOf :: "nat \<Rightarrow> string" where
  "uuidOf i = ''uuid-'' @ String_nat i"


section \<open>Answering and submitting a quiz\<close>

definition handleAnswerChange :: "string \<Rightarrow> string \<Rightarrow> quiz_state \<Rightarrow> quiz_state" where
  "handleAnswerChange questionId v s =
     (if isSubmitted s then s
      else s\<lparr>currentAnswers := (currentAnswers s)(questionId \<mapsto> v)\<rparr>)"

text \<open>
  The scoring rule inside the \<open>forEach\<close> of \<open>handleSubmit\<close>. \<open>userAnswer\<close> is
  \<open>currentAnswers[q.id]\<close>, \<open>None\<close> where it is \<open>undefined\<close>; \<open>===\<close> on two values
  that are each a string or \<open>undefined\<close> is equality of options.
\<close>

definition isCorrect :: "quiz_question \<Rightarrow> string option \<Rightarrow> bool" where
  "isCorrect q answer =
     (if qtype q = ''mcq'' then answer = correctAnswer q
      else (case answer of None \<Rightarrow> False | Some a \<Rightarrow> a \<noteq> [] \<and> length a > 5))"

text \<open>\<open>v || alt\<close> and \<open>v ? f v : alt\<close> for a value that is a string or \<open>undefined\<close>.\<close>

definition orElse :: "string option \<Rightarrow> string \<Rightarrow> string" where
  "orElse v alt = (case v of None \<Rightarrow> alt | Some a \<Rightarrow> if a \<noteq> [] then a else alt)"

definition shortened :: "string option \<Rightarrow> string \<Rightarrow> string" where
  "shortened v alt =
     (case v of
        None \<Rightarrow> alt
      | Some a \<Rightarrow> if a \<noteq> [] then substring0 a 50 @ ''...'' else alt)"

text \<open>The text that one round of the \<open>forEach\<close> appends to \<open>feedbackExplanation\<close>.\<close>

definition questionFeedback :: "nat \<Rightarrow> quiz_question \<Rightarrow> string option \<Rightarrow> string" where
  "questionFeedback index q answer =
     String_nat (index + 1) @ ''. '' @ question q @ newline
     @ (if qtype q = ''mcq'' then
          ''   Your Choice: '' @ orElse answer ''No Answer'' @ newline
          @ ''   Correct Choice: ''
          @ (case correctAnswer q of None \<Rightarrow> ''undefined'' | Some c \<Rightarrow> c) @ newline
        else
          ''   Your Answer: '' @ shortened answer ''No Answer'' @ newline
          @ ''   Model Answer: '' @ shortened (modelAnswer q) ''N/A'' @ newline)
     @ (if isCorrect q answer then ''   Status: CORRECT'' else ''   Status: INCORRECT'')
     @ newline
     @ ''   Explanation: '' @ explanation q @ newline @ newline"

text \<open>
  \<open>quizData.questions.forEach((q, index) => ...)\<close> with its two accumulators
  \<open>correctCount\<close> and \<open>feedbackExplanation\<close>.
\<close>

fun submitLoop ::
  "(string \<rightharpoonup> string) \<Rightarrow> (nat \<times> quiz_question) list \<Rightarrow> nat \<Rightarrow> string \<Rightarrow> nat \<times> string"
where
  "submitLoop answers [] correctCount feedbackExplanation = (correctCount, feedbackExplanation)"
| "submitLoop answers ((index, q) # rest) correctCount feedbackExplanation =
     submitLoop answers rest
       (if isCorrect q (answers (qid q)) then correctCount + 1 else correctCount)
       (feedbackExplanation @ questionFeedback index q (answers (qid q)))"

text \<open>\<open>now\<close> is the value of \<open>Date.now()\<close>.\<close>

definition handleSubmit :: "nat \<Rightarrow> quiz_state \<Rightarrow> quiz_state \<times> effect list" where
  "handleSubmit now s =
     (if \<not> hasQuiz s then (s, [])
      else
        (case quizData s of
           None \<Rightarrow> (s, [])
         | Some qd \<Rightarrow>
             (case submitLoop (currentAnswers s) (enumerate 0 (questions qd)) 0
                     (''Quiz: '' @ quizTitle qd @ '' ('' @ toUpperCase (quizType s) @ '')''
                      @ newline @ newline) of
                (correctCount, feedbackExplanation) \<Rightarrow>
                  (s\<lparr>score := correctCount, feedback := feedbackExplanation,
                     isSubmitted := True\<rparr>,
                   [SaveProgress
                      \<lparr>attempt_type = quizType s,
                       attempt_score = correctCount,
                       attempt_total = length (questions qd),
                       timestamp = now,
                       attempt_quizTitle = quizTitle qd\<rparr>]))))"

text \<open>
  \<open>() => setIsSubmitted(false)\<close>: the handler of the button "Close Feedback" and the
  \<open>onClose\<close> of the result modal ("Continue Revision").
\<close>

definition closeFeedback :: "quiz_state \<Rightarrow> quiz_state" where
  "closeFeedback s = s\<lparr>isSubmitted := False\<rparr>"

text \<open>The attempts handed to \<open>saveProgress\<close> among the effects.\<close>

definition savedAttempts :: "effect list \<Rightarrow> attempt list" where
  "savedAttempts effs = concat (map (\<lambda>e. case e of SaveProgress a \<Rightarrow> [a] | _ \<Rightarrow> []) effs)"

text \<open>The number of questions that the scoring rule of the code counts as correct.\<close>

definition countCorrect :: "quiz_question list \<Rightarrow> (string \<rightharpoonup> string) \<Rightarrow> nat" where
  "countCorrect qs answers = length (filter (\<lambda>q. isCorrect q (answers (qid q))) qs)"

text \<open>
  The scoring policy in the words of the specification: a choice question is correct
  iff there is a selected option string and it is equal to the canonical answer; any
  other question is correct iff the answer is non-empty and longer than 5 characters.
\<close>

definition spec_correct :: "quiz_question \<Rightarrow> string option \<Rightarrow> bool" where
  "spec_correct q selected =
     (case selected of
        None \<Rightarrow> False
      | Some a \<Rightarrow>
          if qtype q = ''mcq'' then correctAnswer q = Some a
          else a \<noteq> [] \<and> 5 < length a)"

definition spec_score :: "quiz_question list \<Rightarrow> (string \<rightharpoonup> string) \<Rightarrow> nat" where
  "spec_score qs answers = length (filter (\<lambda>q. spec_correct q (answers (qid q))) qs)"


section \<open>fetchChatResponse\<close>

record chat_reply =
  reply_text :: string
  reply_sources :: "source list"

definition useGoogleSearch :: "string \<Rightarrow> string \<Rightarrow> bool" where
  "useGoogleSearch currentMessage pdfText =
     (pdfText = []
      \<or> includesStr (toLowerCase currentMessage) ''what is the latest''
      \<or> includesStr (toLowerCase currentMessage) ''recent news'')"

definition contextPart :: "string \<Rightarrow> string" where
  "contextPart pdfText =
     (if pdfText \<noteq> [] then
        ''[CONTEXT FROM SELECTED PDF: The student is revising from this material: ''
        @ take (min (length pdfText) 2500) pdfText @ ''...]''
      else [])"

definition chatPayload :: "message list \<Rightarrow> string \<Rightarrow> string \<Rightarrow> payload" where
  "chatPayload hist currentMessage pdfText =
     \<lparr>contents =
        hist @ [\<lparr>role = Some ''user'',
                 parts = [\<lparr>part_text = contextPart pdfText @ newline @ newline @ currentMessage,
                           sources = None\<rparr>]\<rparr>],
      tools = Some (if useGoogleSearch currentMessage pdfText then [''google_search''] else []),
      systemInstruction =
        ''You are a helpful and supportive virtual teacher. Answer questions concisely and use the provided context from the coursebook whenever possible. If you use external search (only when context is not sufficient), you must cite sources clearly. When answering based on the provided [CONTEXT], you must cite the source in your response (e.g., 'According to the text, unification is...'). Do not make up facts.'',
      generationConfig = None\<rparr>"

definition truthy :: "string option \<Rightarrow> bool" where
  "truthy v = (case v of None \<Rightarrow> False | Some a \<Rightarrow> a \<noteq> [])"

text \<open>The body of the \<open>try\<close> block of one chat attempt.\<close>

definition chatAttempt :: "http_result \<Rightarrow> string + chat_reply" where
  "chatAttempt r =
     (case r of
        FetchRejected \<Rightarrow> Inl ''Failed to fetch''
      | HttpResponse ok status b \<Rightarrow>
          if \<not> ok then Inl (''HTTP error! status: '' @ String_nat status)
          else
            (case b of
               None \<Rightarrow> Inl ''Unexpected response body''
             | Some result \<Rightarrow>
                 (case groundingAttributions result of
                    NoAttributions \<Rightarrow>
                      Inr \<lparr>reply_text =
                             orElse (candidateText result) ''Sorry, I couldn't generate a response.'',
                           reply_sources = []\<rparr>
                  | MalformedAttributions \<Rightarrow> Inl ''TypeError''
                  | Attributions attrs \<Rightarrow>
                      Inr \<lparr>reply_text =
                             orElse (candidateText result) ''Sorry, I couldn't generate a response.'',
                           reply_sources =
                             filter (\<lambda>src. truthy (uri src))
                               (map (\<lambda>attr. \<lparr>uri = web_uri attr, title = web_title attr\<rparr>) attrs)\<rparr>)))"

definition fallbackReply :: chat_reply where
  "fallbackReply =
     \<lparr>reply_text = ''I'm having trouble connecting right now. Please try again later.'',
      reply_sources = []\<rparr>"

text \<open>
  The retry loop of \<open>fetchChatResponse\<close>. Falling out of the loop returns
  \<open>undefined\<close> (\<open>None\<close>).
\<close>

fun fetchChatResponse_loop ::
  "network \<Rightarrow> payload \<Rightarrow> nat list \<Rightarrow> chat_reply option outcome \<times> effect list"
where
  "fetchChatResponse_loop fetch p [] = (Returned None, [])"
| "fetchChatResponse_loop fetch p (i # rest) =
     (case chatAttempt (fetch p i) of
        Inr reply \<Rightarrow> (Returned (Some reply), [Fetch p])
      | Inl err \<Rightarrow>
          if i = 2 then
            (Returned (Some fallbackReply),
             [Fetch p, ConsoleError (''Chat attempt '' @ String_nat (i + 1) @ '' failed:'')])
          else
            (case fetchChatResponse_loop fetch p rest of
               (res, effs) \<Rightarrow>
                 (res,
                  [Fetch p, ConsoleError (''Chat attempt '' @ String_nat (i + 1) @ '' failed:''),
                   Sleep (2 ^ i * 1000)] @ effs)))"

definition fetchChatResponse ::
  "network \<Rightarrow> message list \<Rightarrow> string \<Rightarrow> string \<Rightarrow> chat_reply option outcome \<times> effect list"
where
  "fetchChatResponse fetch hist currentMessage pdfText =
     fetchChatResponse_loop fetch (chatPayload hist currentMessage pdfText) [0, 1, 2]"


section \<open>The ChatUI component\<close>

record chat =
  chat_id :: nat
  name :: string
  history :: "message list"

record chat_state =
  chatList :: "chat list"
  activeChatId :: nat
  inputMessage :: string
  isTyping :: bool

definition initialChatState :: chat_state where
  "initialChatState =
     \<lparr>chatList = [\<lparr>chat_id = 1, name = ''Physics Revision Chat'', history = []\<rparr>],
      activeChatId = 1, inputMessage = [], isTyping = False\<rparr>"

text \<open>
  \<open>chatList.find(c => c.id === activeChatId) || chatList[0]\<close>; \<open>None\<close> where the
  value is \<open>undefined\<close> (an empty list), on which reading \<open>.history\<close> raises.
\<close>

definition activeChat :: "chat_state \<Rightarrow> chat option" where
  "activeChat s =
     (case find (\<lambda>c. chat_id c = activeChatId s) (chatList s) of
        Some c \<Rightarrow> Some c
      | None \<Rightarrow> (case chatList s of [] \<Rightarrow> None | c # cs \<Rightarrow> Some c))"

definition handleNewChat :: "nat \<Rightarrow> chat_state \<Rightarrow> chat_state" where
  "handleNewChat now s =
     s\<lparr>chatList :=
         chatList s
         @ [\<lparr>chat_id = now, name = ''New Chat '' @ String_nat (length (chatList s) + 1),
              history = []\<rparr>],
       activeChatId := now\<rparr>"

text \<open>
  What a running \<open>handleSendMessage\<close> holds across its \<open>await\<close>: the thread it was
  sent on (\<open>activeChatId\<close>), \<open>newHistory\<close>, and the arguments of
  \<open>fetchChatResponse\<close> (\<open>activeChat.history\<close>, \<open>currentInput\<close>, \<open>pdfText\<close>).
\<close>

record pending_send =
  sentOn :: nat
  newHistory :: "message list"
  sentHistory :: "message list"
  currentInput :: string
  sentPdfText :: string

definition userMessage :: "string \<Rightarrow> message" where
  "userMessage input = \<lparr>role = Some ''user'', parts = [\<lparr>part_text = input, sources = None\<rparr>]\<rparr>"

definition assistantMessage :: "chat_reply \<Rightarrow> message" where
  "assistantMessage r =
     \<lparr>role = Some ''assistant'',
      parts = [\<lparr>part_text = reply_text r, sources = Some (reply_sources r)\<rparr>]\<rparr>"

definition errorMessage :: message where
  "errorMessage =
     \<lparr>role = Some ''assistant'',
      parts = [\<lparr>part_text = ''Error fetching response. Try again.'', sources = None\<rparr>]\<rparr>"

definition setHistory :: "nat \<Rightarrow> message list \<Rightarrow> chat list \<Rightarrow> chat list" where
  "setHistory i h cs = map (\<lambda>c. if chat_id c = i then c\<lparr>history := h\<rparr> else c) cs"

text \<open>
  \<open>handleSendMessage\<close> up to its \<open>await\<close>: the guard, the user message appended to
  the active thread, the input cleared and the busy flag set. The second component is the
  call of \<open>fetchChatResponse\<close> that is now in flight, if there is one. (With no chat
  at all the component cannot render, and no handler runs; the model leaves the state as
  it is.)
\<close>

definition handleSendMessage_start :: "string \<Rightarrow> chat_state \<Rightarrow> chat_state \<times> pending_send option" where
  "handleSendMessage_start pdfText s =
     (if trim (inputMessage s) = [] \<or> isTyping s then (s, None)
      else
        (case activeChat s of
           None \<Rightarrow> (s, None)
         | Some ac \<Rightarrow>
             (s\<lparr>chatList :=
                  setHistory (activeChatId s) (history ac @ [userMessage (inputMessage s)]) (chatList s),
                inputMessage := [],
                isTyping := True\<rparr>,
              Some \<lparr>sentOn = activeChatId s,
                    newHistory = history ac @ [userMessage (inputMessage s)],
                    sentHistory = history ac,
                    currentInput = inputMessage s,
                    sentPdfText = pdfText\<rparr>)))"

text \<open>
  The message that the rest of \<open>handleSendMessage\<close> appends: the assistant's reply, or
  the \<open>catch\<close> block's message where \<open>fetchChatResponse\<close> threw or its value cannot
  be destructured.
\<close>

definition replyMessage :: "chat_reply option outcome \<Rightarrow> message" where
  "replyMessage out =
     (case out of
        Returned (Some r) \<Rightarrow> assistantMessage r
      | Returned None \<Rightarrow> errorMessage
      | Thrown err \<Rightarrow> errorMessage)"

text \<open>
  \<open>handleSendMessage\<close> from its \<open>await\<close> on, run on the state \<open>s\<close> that the
  component has when the call settles.
\<close>

definition handleSendMessage_finish :: "network \<Rightarrow> pending_send \<Rightarrow> chat_state \<Rightarrow> chat_state \<times> effect list" where
  "handleSendMessage_finish fetch call s =
     (case fetchChatResponse fetch (sentHistory call) (currentInput call) (sentPdfText call) of
        (out, effs) \<Rightarrow>
          (s\<lparr>chatList := setHistory (sentOn call) (newHistory call @ [replyMessage out]) (chatList s),
             isTyping := False\<rparr>,
           effs))"

text \<open>
  Every handler is run on the state that the component has when its event occurs: the
  component has rendered again between two events, so a handler never reads a stale
  state. The retry loop of a call runs as one step when the call settles; it depends on
  the arguments captured at the send only.

  The component over time: its state, the calls of \<open>handleSendMessage\<close> that are
  suspended at their \<open>await\<close>, and the effects so far. An event is a user action
  (typing into the input box, "+ New Chat" at time \<open>now\<close>, a click on the button of the
  chat at index \<open>k\<close> of the list, a send while the document text is \<open>pdfText\<close>) or
  the settling of the in-flight call with index \<open>k\<close> against a network.
\<close>

record chat_world =
  ui :: chat_state
  inflight :: "pending_send list"
  effects :: "effect list"

datatype chat_event =
    SetInputMessage string
  | NewChat nat
  | SelectChat nat
  | SendMessage string
  | Settle nat network

definition initialChatWorld :: chat_world where
  "initialChatWorld = \<lparr>ui = initialChatState, inflight = [], effects = []\<rparr>"

fun chat_step :: "chat_world \<Rightarrow> chat_event \<Rightarrow> chat_world" where
  "chat_step w (SetInputMessage t) = w\<lparr>ui := (ui w)\<lparr>inputMessage := t\<rparr>\<rparr>"
| "chat_step w (NewChat now) = w\<lparr>ui := handleNewChat now (ui w)\<rparr>"
| "chat_step w (SelectChat k) =
     (if k < length (chatList (ui w)) then
        w\<lparr>ui := (ui w)\<lparr>activeChatId := chat_id (chatList (ui w) ! k)\<rparr>\<rparr>
      else w)"
| "chat_step w (SendMessage pdfText) =
     (case handleSendMessage_start pdfText (ui w) of
        (s, None) \<Rightarrow> w\<lparr>ui := s\<rparr>
      | (s, Some call) \<Rightarrow> w\<lparr>ui := s, inflight := inflight w @ [call]\<rparr>)"
| "chat_step w (Settle k fetch) =
     (if k < length (inflight w) then
        (case handleSendMessage_finish fetch (inflight w ! k) (ui w) of
           (s, effs) \<Rightarrow>
             w\<lparr>ui := s,
               inflight := take k (inflight w) @ drop (Suc k) (inflight w),
               effects := effects w @ effs\<rparr>)
      else w)"

definition chat_run :: "chat_event list \<Rightarrow> chat_world" where
  "chat_run evs = foldl chat_step initialChatWorld evs"

text \<open>The in-flight calls that were sent on thread \<open>i\<close>.\<close>

definition inflightOn :: "nat \<Rightarrow> chat_world \<Rightarrow> pending_send list" where
  "inflightOn i w = filter (\<lambda>call. sentOn call = i) (inflight w)"

text \<open>The history of the first thread with identifier \<open>i\<close>.\<close>

definition historyOf :: "nat \<Rightarrow> chat_state \<Rightarrow> message list option" where
  "historyOf i s = map_option history (find (\<lambda>c. chat_id c = i) (chatList s))"


section \<open>Concrete scenarios\<close>

text \<open>A document text of 51 characters, one of 50 and one of 40.\<close>

definition text51 :: string where
  "text51 = replicate 51 CHR ''a''"

definition text50 :: string where
  "text50 = replicate 50 CHR ''a''"

definition text40 :: string where
  "text40 = replicate 40 CHR ''a''"

text \<open>
  A choice quiz with the canonical answers A, B and C, and the answers of a user who
  picks A for the first question, a wrong option for the second and nothing for the third.
\<close>

definition choiceQuestion :: "string \<Rightarrow> string \<Rightarrow> quiz_question" where
  "choiceQuestion i c =
     \<lparr>qid = i, qtype = ''mcq'', question = ''Which one?'',
      options = Some [''A'', ''B'', ''C'', ''D''], correctAnswer = Some c, modelAnswer = None,
      explanation = ''See the text.'', userAnswer = Some []\<rparr>"

definition choiceQuiz :: quiz where
  "choiceQuiz =
     \<lparr>quizTitle = ''Physical World'',
      questions = [choiceQuestion ''q1'' ''A'', choiceQuestion ''q2'' ''B'', choiceQuestion ''q3'' ''C'']\<rparr>"

definition choiceState :: quiz_state where
  "choiceState =
     \<lparr>quizData = Some choiceQuiz,
      currentAnswers = [''q1'' \<mapsto> ''A'', ''q2'' \<mapsto> ''D''],
      quizLoading = False, quizType = ''mcq'', isSubmitted = False, score = 0, feedback = []\<rparr>"

text \<open>A short-answer question and the answer "It is unification.".\<close>

definition shortQuestion :: quiz_question where
  "shortQuestion =
     \<lparr>qid = ''s1'', qtype = ''saq'', question = ''What is unification?'', options = None,
      correctAnswer = None, modelAnswer = Some ''Explaining diverse phenomena by few laws.'',
      explanation = ''Section 1.2'', userAnswer = Some []\<rparr>"

text \<open>
  A provider that answers every request with status 200 and a text, and a parse of that
  text to a quiz of one choice question with two options, none of them the canonical
  answer.
\<close>

definition online :: network where
  "online p i =
     HttpResponse True 200 (Some \<lparr>candidateText = Some ''{}'', groundingAttributions = NoAttributions\<rparr>)"

definition thinQuiz :: quiz where
  "thinQuiz =
     \<lparr>quizTitle = ''Thin'',
      questions =
        [\<lparr>qid = ''1'', qtype = ''mcq'', question = ''Is it?'', options = Some [''yes'', ''no''],
          correctAnswer = Some ''maybe'', modelAnswer = None, explanation = ''None.'',
          userAnswer = None\<rparr>]\<rparr>"

definition thinParse :: "string \<Rightarrow> parsed option" where
  "thinParse t = Some (IsQuiz thinQuiz)"

text \<open>A parse of the provider's text to a value that is not a quiz object.\<close>

definition looseParse :: "string \<Rightarrow> parsed option" where
  "looseParse t = Some NotAQuiz"

text \<open>A provider that answers every request with status 503.\<close>

definition unavailable :: network where
  "unavailable p i = HttpResponse False 503 None"

text \<open>A provider that answers a chat request with a text and two attributions, one without a link.\<close>

definition answering :: network where
  "answering p i =
     HttpResponse True 200
       (Some \<lparr>candidateText = Some ''Physics is the study of nature.'',
              groundingAttributions =
                Attributions
                  [\<lparr>web_uri = Some ''https://example.org/physics'', web_title = Some ''Physics''\<rparr>,
                   \<lparr>web_uri = None, web_title = Some ''No link''\<rparr>]\<rparr>)"

definition answeringReply :: chat_reply where
  "answeringReply =
     \<lparr>reply_text = ''Physics is the study of nature.'',
      reply_sources = [\<lparr>uri = Some ''https://example.org/physics'', title = Some ''Physics''\<rparr>]\<rparr>"

text \<open>
  The recency phrases of \<open>fetchChatResponse\<close>, as the set that the specification
  speaks of.
\<close>

definition recencyPhrases :: "string list" where
  "recencyPhrases = [''what is the latest'', ''recent news'']"


definition askedWorld :: chat_world where
  "askedWorld =
     foldl chat_step initialChatWorld [SetInputMessage ''What is physics?'', SendMessage text51]"

definition switchedWorld :: chat_world where
  "switchedWorld =
     foldl chat_step initialChatWorld
       [SetInputMessage ''What is physics?'', SendMessage text51, NewChat 2]"

definition busyWorld :: chat_world where
  "busyWorld = chat_step switchedWorld (SetInputMessage ''And chemistry?'')"

definition blankWorld :: chat_world where
  "blankWorld = chat_step initialChatWorld (SetInputMessage [CHR '' '', CHR 0x09, CHR '' ''])"


text \<open>
  The choice quiz submitted, its feedback closed, and the answer to the second question
  changed to the canonical one.
\<close>

definition reopenedState :: quiz_state where
  "reopenedState = handleAnswerChange ''q2'' ''B'' (closeFeedback (fst (handleSubmit 0 choiceState)))"


text \<open>
  The pending call of a generate on the 51-character text, and the state in which a first
  generate on the choice quiz has started, a second generate has started after it, and the
  second has settled with the quiz of one question while the first is still pending.
\<close>

definition textCall :: pending_generate where
  "textCall = \<lparr>genText = text51, genType = ''mcq''\<rparr>"

definition overlapState :: quiz_state where
  "overlapState =
     fst (handleGenerate_settle thinParse online uuidOf textCall
            (fst (handleGenerate_begin False text51 (fst (handleGenerate_begin False text51 choiceState)))))"

text \<open>
  A choice question as the provider may send it under the response schema, which does
  not require \<open>correctAnswer\<close>: it has no canonical answer. A quiz of three such
  questions and a quiz of one, each with no answer given.
\<close>

definition keylessQuestion :: "string \<Rightarrow> quiz_question" where
  "keylessQuestion i =
     \<lparr>qid = i, qtype = ''mcq'', question = ''Which one?'',
      options = Some [''A'', ''B'', ''C'', ''D''], correctAnswer = None, modelAnswer = None,
      explanation = ''See the text.'', userAnswer = Some []\<rparr>"

definition keylessQuiz :: quiz where
  "keylessQuiz =
     \<lparr>quizTitle = ''Physical World'',
      questions = [keylessQuestion ''k1'', keylessQuestion ''k2'', keylessQuestion ''k3'']\<rparr>"

definition keylessState :: quiz_state where
  "keylessState =
     \<lparr>quizData = Some keylessQuiz, currentAnswers = Map.empty,
      quizLoading = False, quizType = ''mcq'', isSubmitted = False, score = 0, feedback = []\<rparr>"

definition oneKeylessState :: quiz_state where
  "oneKeylessState =
     \<lparr>quizData = Some \<lparr>quizTitle = ''T'', questions = [keylessQuestion ''k1'']\<rparr>,
      currentAnswers = Map.empty,
      quizLoading = False, quizType = ''mcq'', isSubmitted = False, score = 0, feedback = []\<rparr>"


section \<open>Auxiliary facts\<close>

lemma all_less_3: "(\<forall>i<3. P (i::nat)) = (P 0 \<and> P 1 \<and> P 2)"
  by (auto simp: eval_nat_numeral less_Suc_eq)

lemma fetchCount_simps [simp]:
  "fetchCount [] = 0"
  "fetchCount (Fetch p # es) = Suc (fetchCount es)"
  "fetchCount (Sleep n # es) = fetchCount es"
  "fetchCount (ConsoleWarn t # es) = fetchCount es"
  "fetchCount (ConsoleError t # es) = fetchCount es"
  "fetchCount (Alert t # es) = fetchCount es"
  "fetchCount (SaveProgress a # es) = fetchCount es"
  "fetchCount (es @ es') = fetchCount es + fetchCount es'"
  by (simp_all add: fetchCount_def)

lemma sleeps_simps [simp]:
  "sleeps [] = []"
  "sleeps (Fetch p # es) = sleeps es"
  "sleeps (Sleep n # es) = n # sleeps es"
  "sleeps (ConsoleWarn t # es) = sleeps es"
  "sleeps (ConsoleError t # es) = sleeps es"
  "sleeps (Alert t # es) = sleeps es"
  "sleeps (SaveProgress a # es) = sleeps es"
  "sleeps (es @ es') = sleeps es @ sleeps es'"
  by (simp_all add: sleeps_def)

lemma text51_ready: "isQuizReady False text51"
  by (simp add: isQuizReady_def text51_def)

lemma offline_fails: "isl (quizAttempt J (offline p i))"
  by (simp add: quizAttempt_def offline_def)

lemma unavailable_fails: "isl (quizAttempt J (unavailable p i))"
  by (simp add: quizAttempt_def unavailable_def)

subsection \<open>The retry loops\<close>

lemma fetchQuiz_all_fail:
  assumes "\<forall>i<3. isl (quizAttempt JSON_parse (fetch (quizPayload txt qt) i))"
  shows "fetchQuiz JSON_parse fetch txt qt =
     (Thrown ''Failed to generate quiz after multiple retries.'',
      [Fetch (quizPayload txt qt), ConsoleError ''Attempt 1 failed:'', Sleep 1000,
       Fetch (quizPayload txt qt), ConsoleError ''Attempt 2 failed:'', Sleep 2000,
       Fetch (quizPayload txt qt), ConsoleError ''Attempt 3 failed:''])"
  using assms unfolding all_less_3
  by (auto simp: fetchQuiz_def isl_def String_nat.simps)

lemma fetchChatResponse_all_fail:
  assumes "\<forall>i<3. isl (chatAttempt (fetch (chatPayload h m t) i))"
  shows "fetchChatResponse fetch h m t =
     (Returned (Some fallbackReply),
      [Fetch (chatPayload h m t), ConsoleError ''Chat attempt 1 failed:'', Sleep 1000,
       Fetch (chatPayload h m t), ConsoleError ''Chat attempt 2 failed:'', Sleep 2000,
       Fetch (chatPayload h m t), ConsoleError ''Chat attempt 3 failed:''])"
  using assms unfolding all_less_3
  by (auto simp: fetchChatResponse_def isl_def String_nat.simps)

lemma fetchQuiz_bounds:
  "fetchCount (snd (fetchQuiz JSON_parse fetch txt qt)) \<in> {1, 2, 3}
   \<and> sleeps (snd (fetchQuiz JSON_parse fetch txt qt))
       = take (fetchCount (snd (fetchQuiz JSON_parse fetch txt qt)) - 1) [1000, 2000]"
  by (simp add: fetchQuiz_def split: sum.splits)

lemma fetchChatResponse_bounds:
  "fetchCount (snd (fetchChatResponse fetch h m t)) \<in> {1, 2, 3}
   \<and> sleeps (snd (fetchChatResponse fetch h m t))
       = take (fetchCount (snd (fetchChatResponse fetch h m t)) - 1) [1000, 2000]"
  by (simp add: fetchChatResponse_def split: sum.splits)

lemma fetchChatResponse_returns:
  "\<exists>r. fst (fetchChatResponse fetch h m t) = Returned (Some r)"
  by (auto simp: fetchChatResponse_def split: sum.splits)

lemma less_3_cases: "k < 3 \<Longrightarrow> k = 0 \<or> k = 1 \<or> k = (2::nat)"
  by auto


lemma fetchQuiz_success_at:
  assumes "k < 3"
    and "\<forall>i<k. isl (quizAttempt J (fetch (quizPayload pt qt) i))"
    and "quizAttempt J (fetch (quizPayload pt qt) k) = Inr v"
  shows "fst (fetchQuiz J fetch pt qt) = Returned v"
proof -
  from assms(1) have "k = 0 \<or> k = 1 \<or> k = 2" by (rule less_3_cases)
  then show ?thesis
  proof (elim disjE)
    assume "k = 0"
    with assms(3) show ?thesis by (simp add: fetchQuiz_def)
  next
    assume k: "k = 1"
    with assms(2) have "isl (quizAttempt J (fetch (quizPayload pt qt) 0))" by simp
    with k assms(3) show ?thesis by (auto simp: fetchQuiz_def isl_def)
  next
    assume k: "k = 2"
    with assms(2) have "isl (quizAttempt J (fetch (quizPayload pt qt) 0))"
      and "isl (quizAttempt J (fetch (quizPayload pt qt) 1))" by simp_all
    with k assms(3) show ?thesis by (auto simp: fetchQuiz_def isl_def)
  qed
qed

lemma payload_differs: "quizPayload a b \<noteq> chatPayload c d e"
  by (simp add: quizPayload_def chatPayload_def)

lemma fetchQuiz_first_effect:
  "\<exists>rest. snd (fetchQuiz JSON_parse fetch txt qt) = Fetch (quizPayload txt qt) # rest"
  by (auto simp: fetchQuiz_def split: sum.splits prod.splits)

subsection \<open>handleGenerate\<close>

lemma handleGenerate_unfold:
  "handleGenerate JSON_parse fetch uuid pdfLoading pdfText s =
     (if \<not> isQuizReady pdfLoading pdfText then
        (s, [ConsoleWarn ''PDF text is not available or too short.''])
      else
        (case fetchQuiz JSON_parse fetch pdfText (quizType s) of
           (out, effs) \<Rightarrow>
             (case handleGenerate_finish uuid out (handleGenerate_start s) of
                (s', effs') \<Rightarrow> (s', effs @ effs'))))"
  by (simp add: handleGenerate_def handleGenerate_begin_def handleGenerate_settle_def
      split: prod.splits)

lemma handleGenerate_not_ready:
  "\<not> isQuizReady pdfLoading pdfText \<Longrightarrow>
   handleGenerate JSON_parse fetch uuid pdfLoading pdfText s
     = (s, [ConsoleWarn ''PDF text is not available or too short.''])"
  by (simp add: handleGenerate_unfold)

lemma handleGenerate_failed:
  assumes "isQuizReady pl pt"
    and "\<forall>r. fst (fetchQuiz J fetch pt (quizType s)) \<noteq> Returned (IsQuiz r)"
  shows "fst (handleGenerate J fetch uuid pl pt s)
           = s\<lparr>quizData := None, isSubmitted := False, score := 0, feedback := [],
               quizLoading := False\<rparr>
         \<and> snd (handleGenerate J fetch uuid pl pt s)
           = snd (fetchQuiz J fetch pt (quizType s))
             @ [ConsoleError ''Quiz generation failed:'',
                Alert ''Quiz generation failed. Check console for details.'']"
proof (cases "fetchQuiz J fetch pt (quizType s)")
  case (Pair out effs)
  with assms(2) have "\<forall>r. out \<noteq> Returned (IsQuiz r)" by simp
  then have "handleGenerate_finish uuid out (handleGenerate_start s)
      = ((handleGenerate_start s)\<lparr>quizLoading := False\<rparr>,
         [ConsoleError ''Quiz generation failed:'',
          Alert ''Quiz generation failed. Check console for details.''])"
    by (cases out) (auto simp: handleGenerate_finish_def split: parsed.splits)
  with Pair assms(1) show ?thesis
    by (simp add: handleGenerate_unfold handleGenerate_start_def)
qed

lemma handleGenerate_succeeded:
  assumes "isQuizReady pl pt"
    and "fst (fetchQuiz J fetch pt (quizType s)) = Returned (IsQuiz r)"
  shows "fst (handleGenerate J fetch uuid pl pt s)
           = s\<lparr>quizData := Some (r\<lparr>questions := questionsWithIds uuid (questions r)\<rparr>),
               currentAnswers := Map.empty, isSubmitted := False, score := 0, feedback := [],
               quizLoading := False\<rparr>"
  using assms
  by (cases "fetchQuiz J fetch pt (quizType s)")
     (simp add: handleGenerate_unfold handleGenerate_start_def handleGenerate_finish_def)

lemma questionsWithIds_length [simp]: "length (questionsWithIds uuid qs) = length qs"
  by (simp add: questionsWithIds_def)

lemma questionsWithIds_nth:
  "i < length qs \<Longrightarrow>
   questionsWithIds uuid qs ! i = (qs ! i)\<lparr>qid := uuid i, userAnswer := Some []\<rparr>"
  by (simp add: questionsWithIds_def nth_enumerate_eq)

lemma fetchQuiz_first_success:
  "quizAttempt J (fetch (quizPayload pt qt) 0) = Inr v \<Longrightarrow>
   fetchQuiz J fetch pt qt = (Returned v, [Fetch (quizPayload pt qt)])"
  by (simp add: fetchQuiz_def)

lemma thin_attempt: "quizAttempt thinParse (online p i) = Inr (IsQuiz thinQuiz)"
  by (simp add: quizAttempt_def online_def thinParse_def)

lemma uuidOf_0: "uuidOf 0 = ''uuid-0''"
  by (simp add: uuidOf_def String_nat.simps)

lemma handleGenerate_begin_not_ready:
  "\<not> isQuizReady pl pt \<Longrightarrow>
   handleGenerate_begin pl pt s = (s, None, [ConsoleWarn ''PDF text is not available or too short.''])"
  by (simp add: handleGenerate_begin_def)

lemma handleGenerate_begin_ready:
  "isQuizReady pl pt \<Longrightarrow>
   handleGenerate_begin pl pt s =
     (s\<lparr>quizLoading := True, quizData := None, isSubmitted := False, score := 0, feedback := []\<rparr>,
      Some \<lparr>genText = pt, genType = quizType s\<rparr>, [])"
  by (simp add: handleGenerate_begin_def handleGenerate_start_def)

lemma handleGenerate_settle_failed:
  assumes "\<forall>r. fst (fetchQuiz J fetch (genText call) (genType call)) \<noteq> Returned (IsQuiz r)"
  shows "handleGenerate_settle J fetch uuid call t =
     (t\<lparr>quizLoading := False\<rparr>,
      snd (fetchQuiz J fetch (genText call) (genType call))
      @ [ConsoleError ''Quiz generation failed:'',
         Alert ''Quiz generation failed. Check console for details.''])"
proof (cases "fetchQuiz J fetch (genText call) (genType call)")
  case (Pair out effs)
  with assms have "\<forall>r. out \<noteq> Returned (IsQuiz r)" by simp
  then have "handleGenerate_finish uuid out t
      = (t\<lparr>quizLoading := False\<rparr>,
         [ConsoleError ''Quiz generation failed:'',
          Alert ''Quiz generation failed. Check console for details.''])"
    by (cases out) (auto simp: handleGenerate_finish_def split: parsed.splits)
  with Pair show ?thesis by (simp add: handleGenerate_settle_def)
qed

lemma handleGenerate_settle_succeeded:
  assumes "fst (fetchQuiz J fetch (genText call) (genType call)) = Returned (IsQuiz r)"
  shows "fst (handleGenerate_settle J fetch uuid call t) =
     t\<lparr>quizData := Some (r\<lparr>questions := questionsWithIds uuid (questions r)\<rparr>),
       currentAnswers := Map.empty, quizLoading := False\<rparr>"
  using assms
  by (cases "fetchQuiz J fetch (genText call) (genType call)")
     (simp add: handleGenerate_settle_def handleGenerate_finish_def)

lemma handleGenerate_settle_isSubmitted:
  "isSubmitted (fst (handleGenerate_settle J fetch uuid call t)) = isSubmitted t"
  by (simp add: handleGenerate_settle_def handleGenerate_finish_def
      split: prod.splits outcome.splits parsed.splits)

lemma thin_fetch: "fst (fetchQuiz thinParse online text51 ''mcq'') = Returned (IsQuiz thinQuiz)"
  by (simp add: fetchQuiz_first_success thin_attempt)

lemma overlapState_eq:
  "overlapState =
     choiceState\<lparr>quizLoading := False,
       quizData := Some (thinQuiz\<lparr>questions := questionsWithIds uuidOf (questions thinQuiz)\<rparr>),
       isSubmitted := False, score := 0, feedback := [], currentAnswers := Map.empty\<rparr>"
proof -
  have "fst (fetchQuiz thinParse online (genText textCall) (genType textCall)) = Returned (IsQuiz thinQuiz)"
    by (simp add: textCall_def thin_fetch)
  then have "\<And>t. fst (handleGenerate_settle thinParse online uuidOf textCall t) =
     t\<lparr>quizData := Some (thinQuiz\<lparr>questions := questionsWithIds uuidOf (questions thinQuiz)\<rparr>),
       currentAnswers := Map.empty, quizLoading := False\<rparr>"
    by (rule handleGenerate_settle_succeeded)
  then show ?thesis
    by (simp add: overlapState_def handleGenerate_begin_ready text51_ready)
qed

subsection \<open>Scoring\<close>

lemma isCorrect_spec:
  "qtype q = ''mcq'' \<longrightarrow> correctAnswer q \<noteq> None \<or> a \<noteq> None \<Longrightarrow>
   isCorrect q a = spec_correct q a"
  by (cases a) (auto simp: isCorrect_def spec_correct_def)

lemma countCorrect_spec:
  "\<forall>q\<in>set qs. qtype q = ''mcq'' \<longrightarrow> correctAnswer q \<noteq> None \<or> answers (qid q) \<noteq> None \<Longrightarrow>
   countCorrect qs answers = spec_score qs answers"
  unfolding countCorrect_def spec_score_def
  by (rule arg_cong [where f = length], rule filter_cong) (simp_all add: isCorrect_spec)

lemma submitLoop_count:
  "fst (submitLoop answers iqs c fb)
     = c + length (filter (\<lambda>q. isCorrect q (answers (qid q))) (map snd iqs))"
  by (induction iqs arbitrary: c fb) auto

lemma map_snd_enumerate [simp]: "map snd (enumerate n xs) = xs"
  by (induction xs arbitrary: n) auto

lemma handleSubmit_result:
  assumes "hasQuiz s" and "quizData s = Some qd"
  shows "\<exists>fb. handleSubmit now s =
     (s\<lparr>score := countCorrect (questions qd) (currentAnswers s), feedback := fb, isSubmitted := True\<rparr>,
      [SaveProgress \<lparr>attempt_type = quizType s,
         attempt_score = countCorrect (questions qd) (currentAnswers s),
         attempt_total = length (questions qd),
         timestamp = now,
         attempt_quizTitle = quizTitle qd\<rparr>])"
proof -
  let ?init = "''Quiz: '' @ quizTitle qd @ '' ('' @ toUpperCase (quizType s) @ '')'' @ newline @ newline"
  obtain c fb where l: "submitLoop (currentAnswers s) (enumerate 0 (questions qd)) 0 ?init = (c, fb)"
    by (cases "submitLoop (currentAnswers s) (enumerate 0 (questions qd)) 0 ?init")
  have "c = fst (submitLoop (currentAnswers s) (enumerate 0 (questions qd)) 0 ?init)"
    using l by simp
  also have "\<dots> = countCorrect (questions qd) (currentAnswers s)"
    by (simp add: submitLoop_count countCorrect_def)
  finally have c: "c = countCorrect (questions qd) (currentAnswers s)" .
  show ?thesis
    using assms l c by (intro exI [of _ fb]) (simp add: handleSubmit_def)
qed

lemma toUpperCase_mcq: "toUpperCase ''mcq'' = ''MCQ''"
  by (simp add: toUpperCase_def upperChar_def upperLetters_def lowerLetters_def)

lemma oneKeyless_submit:
  "handleSubmit 7 oneKeylessState =
     (oneKeylessState
        \<lparr>score := 1,
         feedback :=
           ''Quiz: T (MCQ)'' @ newline @ newline
           @ ''1. Which one?'' @ newline
           @ ''   Your Choice: No Answer'' @ newline
           @ ''   Correct Choice: undefined'' @ newline
           @ ''   Status: CORRECT'' @ newline
           @ ''   Explanation: See the text.'' @ newline @ newline,
         isSubmitted := True\<rparr>,
      [SaveProgress \<lparr>attempt_type = ''mcq'', attempt_score = 1, attempt_total = 1, timestamp = 7,
         attempt_quizTitle = ''T''\<rparr>])"
  by (simp add: handleSubmit_def hasQuiz_def oneKeylessState_def keylessQuestion_def toUpperCase_mcq
      questionFeedback_def isCorrect_def orElse_def newline_def String_nat.simps)

lemma keyless_hasQuiz: "hasQuiz keylessState"
  by (simp add: hasQuiz_def keylessState_def keylessQuiz_def)

subsection \<open>Submission\<close>

lemma handleSubmit_noQuiz: "\<not> hasQuiz s \<Longrightarrow> handleSubmit now s = (s, [])"
  by (simp add: handleSubmit_def)

lemma hasQuiz_Some: "hasQuiz s \<Longrightarrow> \<exists>qd. quizData s = Some qd"
  by (cases "quizData s") (simp_all add: hasQuiz_def)

lemma handleGenerate_resets_submitted:
  "isQuizReady pl pt \<Longrightarrow> \<not> isSubmitted (fst (handleGenerate J fetch uuid pl pt s))"
  by (simp add: handleGenerate_unfold handleGenerate_finish_def handleGenerate_start_def
      split: prod.splits outcome.splits parsed.splits)

lemma choiceState_hasQuiz: "hasQuiz choiceState"
  by (simp add: hasQuiz_def choiceState_def choiceQuiz_def)

subsection \<open>Strings\<close>

lemma take_is_prefix_iff: "take (length p) s = p \<longleftrightarrow> prefix p s"
  by (metis append_eq_conv_conj prefix_def take_is_prefix)

lemma includesStr_sublist: "includesStr s p \<longleftrightarrow> sublist p s"
proof (induction s)
  case Nil
  show ?case by auto
next
  case (Cons c cs)
  show ?case
    unfolding includesStr.simps Cons.IH take_is_prefix_iff
    by (simp add: sublist_Cons_right)
qed

lemma trim_empty_iff: "trim s = [] \<longleftrightarrow> (\<forall>c\<in>set s. isWhitespace c)"
proof
  assume "\<forall>c\<in>set s. isWhitespace c"
  then have d: "dropWhile isWhitespace s = []" by (simp add: dropWhile_eq_Nil_conv)
  show "trim s = []" by (simp add: trim_def d)
next
  assume "trim s = []"
  then have a: "\<forall>c\<in>set (dropWhile isWhitespace s). isWhitespace c"
    by (simp add: trim_def dropWhile_eq_Nil_conv)
  have "dropWhile isWhitespace s = []"
  proof (rule ccontr)
    assume n: "dropWhile isWhitespace s \<noteq> []"
    then have "\<not> isWhitespace (hd (dropWhile isWhitespace s))" by (rule hd_dropWhile)
    moreover have "hd (dropWhile isWhitespace s) \<in> set (dropWhile isWhitespace s)"
      using n by simp
    ultimately show False using a by blast
  qed
  then show "\<forall>c\<in>set s. isWhitespace c" by (simp add: dropWhile_eq_Nil_conv)
qed

subsection \<open>Chat requests and threads\<close>

lemma fetchChatResponse_fetches:
  "\<forall>e\<in>set (snd (fetchChatResponse fetch hist m pdfText)).
     \<forall>p. e = Fetch p \<longrightarrow> p = chatPayload hist m pdfText"
  by (simp add: fetchChatResponse_def split: sum.splits)

lemma fetchChatResponse_first_success:
  "chatAttempt (fetch (chatPayload h m t) 0) = Inr r \<Longrightarrow>
   fst (fetchChatResponse fetch h m t) = Returned (Some r)"
  by (simp add: fetchChatResponse_def)

lemma answering_attempt: "chatAttempt (answering p i) = Inr answeringReply"
  by (simp add: chatAttempt_def answering_def answeringReply_def orElse_def truthy_def)

lemma setHistory_ids [simp]: "map chat_id (setHistory i h cs) = map chat_id cs"
  by (induction cs) (auto simp: setHistory_def)

lemma setHistory_length [simp]: "length (setHistory i h cs) = length cs"
  by (simp add: setHistory_def)

lemma find_setHistory:
  "find (\<lambda>c. chat_id c = i) (setHistory i h cs)
     = map_option (\<lambda>c. c\<lparr>history := h\<rparr>) (find (\<lambda>c. chat_id c = i) cs)"
  by (induction cs) (auto simp: setHistory_def)

lemma find_id_None: "find (\<lambda>c. chat_id c = i) cs = None \<longleftrightarrow> i \<notin> chat_id ` set cs"
  by (induction cs) auto

lemma historyOf_present: "historyOf i s \<noteq> None \<longleftrightarrow> i \<in> chat_id ` set (chatList s)"
  by (simp add: historyOf_def find_id_None)

lemma activeChat_present:
  assumes "activeChatId s \<in> chat_id ` set (chatList s)"
  shows "\<exists>ac. activeChat s = Some ac \<and> historyOf (activeChatId s) s = Some (history ac)"
proof (cases "find (\<lambda>c. chat_id c = activeChatId s) (chatList s)")
  case None
  with assms show ?thesis by (simp add: find_id_None)
next
  case (Some ac)
  then show ?thesis by (simp add: activeChat_def historyOf_def)
qed

lemma handleSendMessage_start_busy: "isTyping s \<Longrightarrow> handleSendMessage_start pdfText s = (s, None)"
  by (simp add: handleSendMessage_start_def)

lemma handleSendMessage_start_typing:
  "handleSendMessage_start pdfText s = (s', Some call) \<Longrightarrow> \<not> isTyping s \<and> isTyping s'"
  by (auto simp: handleSendMessage_start_def split: if_splits option.splits)

lemma handleSendMessage_start_None:
  "handleSendMessage_start pdfText s = (s', None) \<Longrightarrow> s' = s"
  by (auto simp: handleSendMessage_start_def split: if_splits option.splits)

lemma handleSendMessage_finish_typing: "\<not> isTyping (fst (handleSendMessage_finish fetch call s))"
  by (simp add: handleSendMessage_finish_def split: prod.splits)

lemma historyOf_updated:
  assumes "i \<in> chat_id ` set cs" and "chatList s' = setHistory i h cs"
  shows "historyOf i s' = Some h"
proof (cases "find (\<lambda>c. chat_id c = i) cs")
  case None
  with assms(1) show ?thesis by (simp add: find_id_None)
next
  case (Some c)
  then show ?thesis by (simp add: historyOf_def assms(2) find_setHistory)
qed

lemma handleSendMessage_start_sends:
  assumes "trim (inputMessage s) \<noteq> []" and "\<not> isTyping s"
    and "activeChatId s \<in> chat_id ` set (chatList s)"
  shows "\<exists>h. historyOf (activeChatId s) s = Some h
     \<and> handleSendMessage_start pdfText s =
        (s\<lparr>chatList := setHistory (activeChatId s) (h @ [userMessage (inputMessage s)]) (chatList s),
           inputMessage := [], isTyping := True\<rparr>,
         Some \<lparr>sentOn = activeChatId s, newHistory = h @ [userMessage (inputMessage s)],
               sentHistory = h, currentInput = inputMessage s, sentPdfText = pdfText\<rparr>)
     \<and> historyOf (activeChatId s) (fst (handleSendMessage_start pdfText s))
         = Some (h @ [userMessage (inputMessage s)])"
proof -
  obtain ac where ac: "activeChat s = Some ac" "historyOf (activeChatId s) s = Some (history ac)"
    using activeChat_present [OF assms(3)] by blast
  have st: "handleSendMessage_start pdfText s =
        (s\<lparr>chatList := setHistory (activeChatId s) (history ac @ [userMessage (inputMessage s)]) (chatList s),
           inputMessage := [], isTyping := True\<rparr>,
         Some \<lparr>sentOn = activeChatId s, newHistory = history ac @ [userMessage (inputMessage s)],
               sentHistory = history ac, currentInput = inputMessage s, sentPdfText = pdfText\<rparr>)"
    using assms(1,2) ac(1) by (simp add: handleSendMessage_start_def)
  have "historyOf (activeChatId s) (fst (handleSendMessage_start pdfText s))
         = Some (history ac @ [userMessage (inputMessage s)])"
    unfolding st using assms(3) by (simp add: historyOf_updated)
  with ac(2) st show ?thesis by blast
qed

lemma handleSendMessage_finish_history:
  assumes "historyOf (sentOn call) t \<noteq> None"
  shows "historyOf (sentOn call) (fst (handleSendMessage_finish fetch call t))
     = Some (newHistory call
         @ [replyMessage (fst (fetchChatResponse fetch (sentHistory call) (currentInput call) (sentPdfText call)))])"
proof -
  from assms have m: "sentOn call \<in> chat_id ` set (chatList t)"
    using historyOf_present by blast
  obtain out effs where
    f: "fetchChatResponse fetch (sentHistory call) (currentInput call) (sentPdfText call) = (out, effs)"
    by (cases "fetchChatResponse fetch (sentHistory call) (currentInput call) (sentPdfText call)")
  have "chatList (fst (handleSendMessage_finish fetch call t))
      = setHistory (sentOn call) (newHistory call @ [replyMessage out]) (chatList t)"
    by (simp add: handleSendMessage_finish_def f)
  from historyOf_updated [OF m this] f show ?thesis by simp
qed

lemma chatAttempt_fails_iff:
  "isl (chatAttempt r) \<longleftrightarrow>
     (r = FetchRejected
      \<or> (\<exists>status b. r = HttpResponse False status b)
      \<or> (\<exists>status. r = HttpResponse True status None)
      \<or> (\<exists>status res. r = HttpResponse True status (Some res)
            \<and> groundingAttributions res = MalformedAttributions))"
  by (cases r) (auto simp: chatAttempt_def split: option.splits grounding.splits)





subsection \<open>Invariants of the chat component\<close>

lemma busy_step:
  "length (inflight w) \<le> 1 \<and> (isTyping (ui w) \<longleftrightarrow> inflight w \<noteq> []) \<Longrightarrow>
   length (inflight (chat_step w e)) \<le> 1
   \<and> (isTyping (ui (chat_step w e)) \<longleftrightarrow> inflight (chat_step w e) \<noteq> [])"
proof (cases e)
  case (SetInputMessage t)
  assume "length (inflight w) \<le> 1 \<and> (isTyping (ui w) \<longleftrightarrow> inflight w \<noteq> [])"
  with SetInputMessage show ?thesis by simp
next
  case (NewChat now)
  assume "length (inflight w) \<le> 1 \<and> (isTyping (ui w) \<longleftrightarrow> inflight w \<noteq> [])"
  with NewChat show ?thesis by (simp add: handleNewChat_def)
next
  case (SelectChat k)
  assume "length (inflight w) \<le> 1 \<and> (isTyping (ui w) \<longleftrightarrow> inflight w \<noteq> [])"
  with SelectChat show ?thesis by simp
next
  case (SendMessage pdfText)
  assume a: "length (inflight w) \<le> 1 \<and> (isTyping (ui w) \<longleftrightarrow> inflight w \<noteq> [])"
  obtain s' pc where h: "handleSendMessage_start pdfText (ui w) = (s', pc)"
    by (cases "handleSendMessage_start pdfText (ui w)")
  show ?thesis
  proof (cases pc)
    case None
    with h have "s' = ui w" by (simp add: handleSendMessage_start_None)
    with a h None SendMessage show ?thesis by simp
  next
    case (Some call)
    with h have "\<not> isTyping (ui w) \<and> isTyping s'" by (simp add: handleSendMessage_start_typing)
    with a h Some SendMessage show ?thesis by simp
  qed
next
  case (Settle k fetch)
  assume a: "length (inflight w) \<le> 1 \<and> (isTyping (ui w) \<longleftrightarrow> inflight w \<noteq> [])"
  show ?thesis
  proof (cases "k < length (inflight w)")
    case False
    with a Settle show ?thesis by simp
  next
    case True
    with a have k: "k = 0" and l: "length (inflight w) = 1" by auto
    obtain s' effs where f: "handleSendMessage_finish fetch (inflight w ! 0) (ui w) = (s', effs)"
      by (cases "handleSendMessage_finish fetch (inflight w ! 0) (ui w)")
    then have "\<not> isTyping s'"
      using handleSendMessage_finish_typing [of fetch "inflight w ! 0" "ui w"] by simp
    with Settle k l f show ?thesis by simp
  qed
qed

lemma busy_foldl:
  "length (inflight w) \<le> 1 \<and> (isTyping (ui w) \<longleftrightarrow> inflight w \<noteq> []) \<Longrightarrow>
   length (inflight (foldl chat_step w evs)) \<le> 1
   \<and> (isTyping (ui (foldl chat_step w evs)) \<longleftrightarrow> inflight (foldl chat_step w evs) \<noteq> [])"
proof (induction evs arbitrary: w)
  case Nil
  then show ?case by simp
next
  case (Cons e evs)
  from Cons.prems have "length (inflight (chat_step w e)) \<le> 1
     \<and> (isTyping (ui (chat_step w e)) \<longleftrightarrow> inflight (chat_step w e) \<noteq> [])"
    by (rule busy_step)
  then show ?case using Cons.IH by simp
qed

lemma busy_run:
  "length (inflight (chat_run evs)) \<le> 1
   \<and> (isTyping (ui (chat_run evs)) \<longleftrightarrow> inflight (chat_run evs) \<noteq> [])"
  unfolding chat_run_def
  by (rule busy_foldl) (simp add: initialChatWorld_def initialChatState_def)




subsection \<open>The concrete chat worlds\<close>

lemma askedWorld_eq:
  "askedWorld =
    \<lparr>ui = \<lparr>chatList = [\<lparr>chat_id = 1, name = ''Physics Revision Chat'',
                          history = [userMessage ''What is physics?'']\<rparr>],
           activeChatId = 1, inputMessage = [], isTyping = True\<rparr>,
     inflight = [\<lparr>sentOn = 1, newHistory = [userMessage ''What is physics?''], sentHistory = [],
                  currentInput = ''What is physics?'', sentPdfText = text51\<rparr>],
     effects = []\<rparr>"
  by (simp add: askedWorld_def initialChatWorld_def initialChatState_def
      handleSendMessage_start_def trim_def isWhitespace_def activeChat_def setHistory_def)

lemma switchedWorld_eq:
  "switchedWorld =
    \<lparr>ui = \<lparr>chatList = [\<lparr>chat_id = 1, name = ''Physics Revision Chat'',
                          history = [userMessage ''What is physics?'']\<rparr>,
                        \<lparr>chat_id = 2, name = ''New Chat 2'', history = []\<rparr>],
           activeChatId = 2, inputMessage = [], isTyping = True\<rparr>,
     inflight = [\<lparr>sentOn = 1, newHistory = [userMessage ''What is physics?''], sentHistory = [],
                  currentInput = ''What is physics?'', sentPdfText = text51\<rparr>],
     effects = []\<rparr>"
  by (simp add: switchedWorld_def initialChatWorld_def initialChatState_def
      handleSendMessage_start_def trim_def isWhitespace_def activeChat_def setHistory_def
      handleNewChat_def String_nat.simps)

lemma busyWorld_eq:
  "busyWorld =
    \<lparr>ui = \<lparr>chatList = [\<lparr>chat_id = 1, name = ''Physics Revision Chat'',
                          history = [userMessage ''What is physics?'']\<rparr>,
                        \<lparr>chat_id = 2, name = ''New Chat 2'', history = []\<rparr>],
           activeChatId = 2, inputMessage = ''And chemistry?'', isTyping = True\<rparr>,
     inflight = [\<lparr>sentOn = 1, newHistory = [userMessage ''What is physics?''], sentHistory = [],
                  currentInput = ''What is physics?'', sentPdfText = text51\<rparr>],
     effects = []\<rparr>"
  by (simp add: busyWorld_def switchedWorld_eq)




section \<open>The readiness gate of generate\<close>

text \<open>
  Claim C1, as the code has it. While the document text is loading, or when it has at
  most 50 characters (in particular 40, and also exactly 50), \<open>handleGenerate\<close> returns
  at once: the state is unchanged, the only effect is a console warning and no network
  call is made. When the text is not loading and has more than 50 characters the gate
  passes, and the first thing that happens is the network call with the quiz request.
\<close>

theorem generate_readiness_gate:
  "(pdfLoading \<or> length pdfText \<le> 50 \<longrightarrow>
      \<not> isQuizReady pdfLoading pdfText
      \<and> handleGenerate JSON_parse fetch uuid pdfLoading pdfText s
          = (s, [ConsoleWarn ''PDF text is not available or too short.''])
      \<and> fetchCount (snd (handleGenerate JSON_parse fetch uuid pdfLoading pdfText s)) = 0)
   \<and> (\<not> pdfLoading \<and> 50 < length pdfText \<longrightarrow>
      isQuizReady pdfLoading pdfText
      \<and> (\<exists>rest. snd (handleGenerate JSON_parse fetch uuid pdfLoading pdfText s)
            = Fetch (quizPayload pdfText (quizType s)) # rest))"
proof (intro conjI impI)
  assume a: "pdfLoading \<or> length pdfText \<le> 50"
  then show nr: "\<not> isQuizReady pdfLoading pdfText"
    by (auto simp: isQuizReady_def)
  then show g: "handleGenerate JSON_parse fetch uuid pdfLoading pdfText s
          = (s, [ConsoleWarn ''PDF text is not available or too short.''])"
    by (rule handleGenerate_not_ready)
  show "fetchCount (snd (handleGenerate JSON_parse fetch uuid pdfLoading pdfText s)) = 0"
    by (simp add: g)
next
  assume b: "\<not> pdfLoading \<and> 50 < length pdfText"
  then show r: "isQuizReady pdfLoading pdfText"
    by (auto simp: isQuizReady_def)
  obtain rest where f: "snd (fetchQuiz JSON_parse fetch pdfText (quizType s))
      = Fetch (quizPayload pdfText (quizType s)) # rest"
    using fetchQuiz_first_effect by blast
  show "\<exists>rest. snd (handleGenerate JSON_parse fetch uuid pdfLoading pdfText s)
            = Fetch (quizPayload pdfText (quizType s)) # rest"
    using r f by (auto simp: handleGenerate_unfold split: prod.splits)
qed

text \<open>
  The gate at a text of 40 characters (no network call) and at one of 51 characters
  (three network calls when the network is down).
\<close>

theorem generate_readiness_gate_witness:
  "\<not> isQuizReady False text40
   \<and> fetchCount (snd (handleGenerate noParse offline uuidOf False text40 initialQuizState)) = 0
   \<and> isQuizReady False text51
   \<and> fetchCount (snd (handleGenerate noParse offline uuidOf False text51 initialQuizState)) = 3"
proof -
  have 1: "False \<or> length text40 \<le> 50" by (simp add: text40_def)
  have 2: "\<not> False \<and> 50 < length text51" by (simp add: text51_def)
  have "\<forall>r. fst (fetchQuiz noParse offline text51 (quizType initialQuizState)) \<noteq> Returned (IsQuiz r)"
    by (simp add: fetchQuiz_all_fail offline_fails)
  then have "snd (handleGenerate noParse offline uuidOf False text51 initialQuizState)
           = snd (fetchQuiz noParse offline text51 (quizType initialQuizState))
             @ [ConsoleError ''Quiz generation failed:'',
                Alert ''Quiz generation failed. Check console for details.'']"
    using handleGenerate_failed text51_ready by blast
  then have 3: "fetchCount (snd (handleGenerate noParse offline uuidOf False text51 initialQuizState)) = 3"
    by (simp add: fetchQuiz_all_fail offline_fails)
  from generate_readiness_gate [of False text40 noParse offline uuidOf initialQuizState] 1 2 3
    generate_readiness_gate [of False text51 noParse offline uuidOf initialQuizState]
  show ?thesis by blast
qed

text \<open>
  A text of exactly 50 characters has at least 50 characters, and yet the gate is closed:
  the call ends with the console warning alone.
\<close>

theorem generate_gate_counterexample:
  "length text50 \<ge> 50
   \<and> \<not> isQuizReady False text50
   \<and> snd (handleGenerate noParse offline uuidOf False text50 initialQuizState)
       = [ConsoleWarn ''PDF text is not available or too short.'']"
  by (simp add: isQuizReady_def handleGenerate_unfold text50_def)


section \<open>A failed generate\<close>

text \<open>
  Claim C2, as the code has it. \<open>handleGenerate\<close> is asynchronous: its first part runs
  at the click and its second part when the request settles, and other handlers may run
  in between. A call stopped by the readiness gate leaves the state as it is and starts
  no request. A call that passes the gate at once clears the quiz, the submitted flag, the
  score and the feedback and sets the loading flag, keeping the answers: no quiz, whole or
  partial, is put in place while the request is in flight. When \<open>fetchQuiz\<close> then fails
  or its value is not a quiz, the settling changes nothing in the state that it finds but
  the loading flag, which it clears, and it raises an alert after the effects of
  \<open>fetchQuiz\<close>: it puts no quiz in place and restores none. In particular three failed
  attempts end so, after three network calls and delays of 1000 and 2000 ms. Where the
  second part runs on the state that the first part left, the call ends with no quiz, the
  submitted flag, the score and the feedback reset and the answers as they were. The quiz
  held before the call is discarded, not kept.
\<close>

theorem generate_failure_clears_quiz:
  "(\<not> isQuizReady pl pt \<longrightarrow>
      handleGenerate_begin pl pt s
        = (s, None, [ConsoleWarn ''PDF text is not available or too short.'']))
   \<and> (isQuizReady pl pt \<longrightarrow>
      handleGenerate_begin pl pt s
        = (s\<lparr>quizLoading := True, quizData := None, isSubmitted := False, score := 0,
             feedback := []\<rparr>,
           Some \<lparr>genText = pt, genType = quizType s\<rparr>, []))
   \<and> ((\<forall>r. fst (fetchQuiz J fetch (genText call) (genType call)) \<noteq> Returned (IsQuiz r)) \<longrightarrow>
      handleGenerate_settle J fetch uuid call t
        = (t\<lparr>quizLoading := False\<rparr>,
           snd (fetchQuiz J fetch (genText call) (genType call))
           @ [ConsoleError ''Quiz generation failed:'',
              Alert ''Quiz generation failed. Check console for details.'']))
   \<and> ((\<forall>i<3. isl (quizAttempt J (fetch (quizPayload (genText call) (genType call)) i))) \<longrightarrow>
      fst (handleGenerate_settle J fetch uuid call t) = t\<lparr>quizLoading := False\<rparr>
      \<and> fetchCount (snd (handleGenerate_settle J fetch uuid call t)) = 3
      \<and> sleeps (snd (handleGenerate_settle J fetch uuid call t)) = [1000, 2000]
      \<and> Alert ''Quiz generation failed. Check console for details.''
          \<in> set (snd (handleGenerate_settle J fetch uuid call t)))
   \<and> (isQuizReady pl pt \<and> (\<forall>r. fst (fetchQuiz J fetch pt (quizType s)) \<noteq> Returned (IsQuiz r)) \<longrightarrow>
      fst (handleGenerate_settle J fetch uuid \<lparr>genText = pt, genType = quizType s\<rparr>
             (fst (handleGenerate_begin pl pt s)))
        = s\<lparr>quizData := None, isSubmitted := False, score := 0, feedback := [],
            quizLoading := False\<rparr>)"
proof (intro conjI impI)
  assume "\<not> isQuizReady pl pt"
  then show "handleGenerate_begin pl pt s
        = (s, None, [ConsoleWarn ''PDF text is not available or too short.''])"
    by (rule handleGenerate_begin_not_ready)
next
  assume "isQuizReady pl pt"
  then show "handleGenerate_begin pl pt s
        = (s\<lparr>quizLoading := True, quizData := None, isSubmitted := False, score := 0,
             feedback := []\<rparr>,
           Some \<lparr>genText = pt, genType = quizType s\<rparr>, [])"
    by (rule handleGenerate_begin_ready)
next
  assume "\<forall>r. fst (fetchQuiz J fetch (genText call) (genType call)) \<noteq> Returned (IsQuiz r)"
  then show "handleGenerate_settle J fetch uuid call t
        = (t\<lparr>quizLoading := False\<rparr>,
           snd (fetchQuiz J fetch (genText call) (genType call))
           @ [ConsoleError ''Quiz generation failed:'',
              Alert ''Quiz generation failed. Check console for details.''])"
    by (rule handleGenerate_settle_failed)
next
  assume a: "\<forall>i<3. isl (quizAttempt J (fetch (quizPayload (genText call) (genType call)) i))"
  then have f: "fetchQuiz J fetch (genText call) (genType call) =
     (Thrown ''Failed to generate quiz after multiple retries.'',
      [Fetch (quizPayload (genText call) (genType call)), ConsoleError ''Attempt 1 failed:'', Sleep 1000,
       Fetch (quizPayload (genText call) (genType call)), ConsoleError ''Attempt 2 failed:'', Sleep 2000,
       Fetch (quizPayload (genText call) (genType call)), ConsoleError ''Attempt 3 failed:''])"
    by (rule fetchQuiz_all_fail)
  then have "\<forall>r. fst (fetchQuiz J fetch (genText call) (genType call)) \<noteq> Returned (IsQuiz r)"
    by simp
  then have e: "handleGenerate_settle J fetch uuid call t
        = (t\<lparr>quizLoading := False\<rparr>,
           snd (fetchQuiz J fetch (genText call) (genType call))
           @ [ConsoleError ''Quiz generation failed:'',
              Alert ''Quiz generation failed. Check console for details.''])"
    by (rule handleGenerate_settle_failed)
  show "fst (handleGenerate_settle J fetch uuid call t) = t\<lparr>quizLoading := False\<rparr>"
    by (simp add: e)
  show "fetchCount (snd (handleGenerate_settle J fetch uuid call t)) = 3"
    unfolding e f by simp
  show "sleeps (snd (handleGenerate_settle J fetch uuid call t)) = [1000, 2000]"
    unfolding e f by simp
  show "Alert ''Quiz generation failed. Check console for details.''
          \<in> set (snd (handleGenerate_settle J fetch uuid call t))"
    unfolding e by simp
next
  assume a: "isQuizReady pl pt \<and> (\<forall>r. fst (fetchQuiz J fetch pt (quizType s)) \<noteq> Returned (IsQuiz r))"
  then have "\<forall>r. fst (fetchQuiz J fetch (genText \<lparr>genText = pt, genType = quizType s\<rparr>)
                        (genType \<lparr>genText = pt, genType = quizType s\<rparr>)) \<noteq> Returned (IsQuiz r)"
    by simp
  then have "\<And>t. fst (handleGenerate_settle J fetch uuid \<lparr>genText = pt, genType = quizType s\<rparr> t)
        = t\<lparr>quizLoading := False\<rparr>"
    by (simp add: handleGenerate_settle_failed)
  with a show "fst (handleGenerate_settle J fetch uuid \<lparr>genText = pt, genType = quizType s\<rparr>
             (fst (handleGenerate_begin pl pt s)))
        = s\<lparr>quizData := None, isSubmitted := False, score := 0, feedback := [],
            quizLoading := False\<rparr>"
    by (simp add: handleGenerate_begin_ready)
qed

text \<open>
  The state holds the choice quiz. A generate while the text is loading changes nothing;
  a generate on the 51-character text clears the quiz at once and keeps the answers. A
  failed settling on the state in which another generate has meanwhile put a quiz in place
  leaves that quiz and clears only the loading flag, whether the provider answers 503
  three times or its value is not a quiz; and a failed settling right after the start
  leaves no quiz.
\<close>

theorem generate_failure_clears_quiz_witness:
  "handleGenerate_begin True text51 choiceState
     = (choiceState, None, [ConsoleWarn ''PDF text is not available or too short.''])
   \<and> quizData choiceState = Some choiceQuiz
   \<and> quizData (fst (handleGenerate_begin False text51 choiceState)) = None
   \<and> currentAnswers (fst (handleGenerate_begin False text51 choiceState)) ''q1'' = Some ''A''
   \<and> fst (snd (handleGenerate_begin False text51 choiceState)) = Some textCall
   \<and> quizData overlapState = Some (thinQuiz\<lparr>questions := questionsWithIds uuidOf (questions thinQuiz)\<rparr>)
   \<and> fst (handleGenerate_settle noParse unavailable uuidOf textCall overlapState)
       = overlapState\<lparr>quizLoading := False\<rparr>
   \<and> fetchCount (snd (handleGenerate_settle noParse unavailable uuidOf textCall overlapState)) = 3
   \<and> sleeps (snd (handleGenerate_settle noParse unavailable uuidOf textCall overlapState)) = [1000, 2000]
   \<and> fst (handleGenerate_settle looseParse online uuidOf textCall overlapState)
       = overlapState\<lparr>quizLoading := False\<rparr>
   \<and> quizData (fst (handleGenerate_settle looseParse online uuidOf textCall
                        (fst (handleGenerate_begin False text51 choiceState)))) = None"
proof -
  have 1: "\<not> isQuizReady True text51" by (simp add: isQuizReady_def)
  have 2: "\<forall>i<3. isl (quizAttempt noParse (unavailable (quizPayload (genText textCall) (genType textCall)) i))"
    by (simp add: unavailable_fails)
  have "quizAttempt looseParse (online (quizPayload text51 ''mcq'') 0) = Inr NotAQuiz"
    by (simp add: quizAttempt_def online_def looseParse_def)
  then have l: "fst (fetchQuiz looseParse online text51 ''mcq'') = Returned NotAQuiz"
    by (simp add: fetchQuiz_first_success)
  then have 3: "\<forall>r. fst (fetchQuiz looseParse online (genText textCall) (genType textCall)) \<noteq> Returned (IsQuiz r)"
    by (simp add: textCall_def)
  have q: "quizType choiceState = ''mcq''" by (simp add: choiceState_def)
  from l q have 4: "isQuizReady False text51
      \<and> (\<forall>r. fst (fetchQuiz looseParse online text51 (quizType choiceState)) \<noteq> Returned (IsQuiz r))"
    by (simp add: text51_ready)
  note t1 = generate_failure_clears_quiz [of True text51 choiceState noParse offline textCall uuidOf overlapState]
  note t2 = generate_failure_clears_quiz [of False text51 choiceState noParse unavailable textCall uuidOf overlapState]
  note t3 = generate_failure_clears_quiz [of False text51 choiceState looseParse online textCall uuidOf overlapState]
  from t1 1 have a: "handleGenerate_begin True text51 choiceState
     = (choiceState, None, [ConsoleWarn ''PDF text is not available or too short.''])"
    by blast
  from t2 text51_ready have b: "handleGenerate_begin False text51 choiceState
        = (choiceState\<lparr>quizLoading := True, quizData := None, isSubmitted := False, score := 0,
             feedback := []\<rparr>,
           Some \<lparr>genText = text51, genType = quizType choiceState\<rparr>, [])"
    by blast
  from t2 2 have c: "fst (handleGenerate_settle noParse unavailable uuidOf textCall overlapState)
       = overlapState\<lparr>quizLoading := False\<rparr>"
    "fetchCount (snd (handleGenerate_settle noParse unavailable uuidOf textCall overlapState)) = 3"
    "sleeps (snd (handleGenerate_settle noParse unavailable uuidOf textCall overlapState)) = [1000, 2000]"
    by blast+
  from t3 3 have d: "fst (handleGenerate_settle looseParse online uuidOf textCall overlapState)
       = overlapState\<lparr>quizLoading := False\<rparr>"
    by simp
  from t3 4 have "fst (handleGenerate_settle looseParse online uuidOf
             \<lparr>genText = text51, genType = quizType choiceState\<rparr>
             (fst (handleGenerate_begin False text51 choiceState)))
        = choiceState\<lparr>quizData := None, isSubmitted := False, score := 0, feedback := [],
            quizLoading := False\<rparr>"
    by blast
  then have e: "quizData (fst (handleGenerate_settle looseParse online uuidOf textCall
                        (fst (handleGenerate_begin False text51 choiceState)))) = None"
    by (simp add: textCall_def q)
  have f: "quizData overlapState = Some (thinQuiz\<lparr>questions := questionsWithIds uuidOf (questions thinQuiz)\<rparr>)"
    by (simp add: overlapState_eq)
  show ?thesis
    unfolding a b using c d e [unfolded b] f by (simp add: choiceState_def textCall_def)
qed

text \<open>
  The state holds the choice quiz; after a generate on which the network is down three
  times, it holds none.
\<close>

theorem generate_failure_counterexample:
  "quizData choiceState = Some choiceQuiz
   \<and> quizData (fst (handleGenerate noParse offline uuidOf False text51 choiceState)) = None"
  by (simp add: choiceState_def handleGenerate_unfold text51_ready fetchQuiz_all_fail offline_fails
      handleGenerate_finish_def handleGenerate_start_def)


section \<open>The shape of a generated quiz\<close>

text \<open>
  Claim C3, as the code has it. When the gate is open and \<open>fetchQuiz\<close> returns a quiz
  object, the QuestionSet stored is that object with its title and with exactly the
  questions of the response, in their order and in their number, each with a fresh local
  identifier and an empty \<open>userAnswer\<close> and otherwise as the provider sent it: the
  options and the canonical answer are taken over as they are. The value of the first
  attempt that parses is what \<open>fetchQuiz\<close> returns. The numbers of questions and of
  options are asked for in the instruction text only; nothing checks them.
\<close>

theorem generate_success_takes_response:
  "(isQuizReady pl pt \<and> fst (fetchQuiz J fetch pt (quizType s)) = Returned (IsQuiz r) \<longrightarrow>
      quizData (fst (handleGenerate J fetch uuid pl pt s))
        = Some \<lparr>quizTitle = quizTitle r, questions = questionsWithIds uuid (questions r)\<rparr>
      \<and> length (questionsWithIds uuid (questions r)) = length (questions r)
      \<and> (\<forall>i<length (questions r).
            questionsWithIds uuid (questions r) ! i
              = (questions r ! i)\<lparr>qid := uuid i, userAnswer := Some []\<rparr>)
      \<and> map options (questionsWithIds uuid (questions r)) = map options (questions r)
      \<and> map correctAnswer (questionsWithIds uuid (questions r)) = map correctAnswer (questions r))
   \<and> (k < 3 \<and> (\<forall>i<k. isl (quizAttempt J (fetch (quizPayload pt qt) i)))
        \<and> quizAttempt J (fetch (quizPayload pt qt) k) = Inr v \<longrightarrow>
        fst (fetchQuiz J fetch pt qt) = Returned v)
   \<and> systemInstruction (quizPayload pt qt) = systemPrompt qt
   \<and> includesStr (systemPrompt ''mcq'') ''generate exactly 3''
   \<and> includesStr (systemPrompt ''mcq'') ''exactly 4 options''
   \<and> includesStr (systemPrompt ''saq'') ''generate exactly 3''
   \<and> includesStr (systemPrompt ''laq'') ''generate exactly 2''"
proof (intro conjI impI allI)
  assume a: "isQuizReady pl pt \<and> fst (fetchQuiz J fetch pt (quizType s)) = Returned (IsQuiz r)"
  then show "quizData (fst (handleGenerate J fetch uuid pl pt s))
        = Some \<lparr>quizTitle = quizTitle r, questions = questionsWithIds uuid (questions r)\<rparr>"
    by (simp add: handleGenerate_succeeded)
  show "length (questionsWithIds uuid (questions r)) = length (questions r)"
    by simp
  show "map options (questionsWithIds uuid (questions r)) = map options (questions r)"
    by (rule nth_equalityI) (simp_all add: questionsWithIds_nth)
  show "map correctAnswer (questionsWithIds uuid (questions r)) = map correctAnswer (questions r)"
    by (rule nth_equalityI) (simp_all add: questionsWithIds_nth)
  fix i assume "i < length (questions r)"
  then show "questionsWithIds uuid (questions r) ! i
              = (questions r ! i)\<lparr>qid := uuid i, userAnswer := Some []\<rparr>"
    by (rule questionsWithIds_nth)
next
  assume "k < 3 \<and> (\<forall>i<k. isl (quizAttempt J (fetch (quizPayload pt qt) i)))
        \<and> quizAttempt J (fetch (quizPayload pt qt) k) = Inr v"
  then show "fst (fetchQuiz J fetch pt qt) = Returned v"
    using fetchQuiz_success_at by blast
next
  show "systemInstruction (quizPayload pt qt) = systemPrompt qt"
    by (simp add: quizPayload_def)
  show "includesStr (systemPrompt ''mcq'') ''generate exactly 3''"
    by (simp add: systemPrompt_def)
  show "includesStr (systemPrompt ''mcq'') ''exactly 4 options''"
    by (simp add: systemPrompt_def)
  show "includesStr (systemPrompt ''saq'') ''generate exactly 3''"
    by (simp add: systemPrompt_def)
  show "includesStr (systemPrompt ''laq'') ''generate exactly 2''"
    by (simp add: systemPrompt_def)
qed

text \<open>
  The provider answers with one choice question; that question, with its fresh
  identifier, is the stored quiz.
\<close>

theorem generate_success_takes_response_witness:
  "quizData (fst (handleGenerate thinParse online uuidOf False text51 initialQuizState))
        = Some \<lparr>quizTitle = ''Thin'', questions = questionsWithIds uuidOf (questions thinQuiz)\<rparr>
   \<and> questionsWithIds uuidOf (questions thinQuiz) ! 0
       = (questions thinQuiz ! 0)\<lparr>qid := ''uuid-0'', userAnswer := Some []\<rparr>
   \<and> map options (questionsWithIds uuidOf (questions thinQuiz)) = [Some [''yes'', ''no'']]
   \<and> fst (fetchQuiz thinParse online text51 ''mcq'') = Returned (IsQuiz thinQuiz)"
proof -
  have q: "quizType initialQuizState = ''mcq''" by (simp add: initialQuizState_def)
  have 1: "(0::nat) < 3 \<and> (\<forall>i<0. isl (quizAttempt thinParse (online (quizPayload text51 ''mcq'') i)))
      \<and> quizAttempt thinParse (online (quizPayload text51 ''mcq'') 0) = Inr (IsQuiz thinQuiz)"
    by (simp add: thin_attempt)
  have l: "0 < length (questions thinQuiz)" by (simp add: thinQuiz_def)
  note t = generate_success_takes_response
    [of False text51 thinParse online initialQuizState thinQuiz uuidOf 0 "''mcq''" "IsQuiz thinQuiz"]
  from t 1 have 2: "fst (fetchQuiz thinParse online text51 ''mcq'') = Returned (IsQuiz thinQuiz)"
    by blast
  with t text51_ready q have
    a: "quizData (fst (handleGenerate thinParse online uuidOf False text51 initialQuizState))
        = Some \<lparr>quizTitle = quizTitle thinQuiz, questions = questionsWithIds uuidOf (questions thinQuiz)\<rparr>"
    and b: "map options (questionsWithIds uuidOf (questions thinQuiz)) = map options (questions thinQuiz)"
    and c: "\<forall>i<length (questions thinQuiz).
            questionsWithIds uuidOf (questions thinQuiz) ! i
              = (questions thinQuiz ! i)\<lparr>qid := uuidOf i, userAnswer := Some []\<rparr>"
    by simp_all
  from c l have d: "questionsWithIds uuidOf (questions thinQuiz) ! 0
       = (questions thinQuiz ! 0)\<lparr>qid := ''uuid-0'', userAnswer := Some []\<rparr>"
    by (simp add: uuidOf_0)
  from a b d 2 show ?thesis by (simp add: thinQuiz_def)
qed

text \<open>
  A choice request whose response parses to one question with two options, none of them
  the canonical answer, succeeds and stores exactly that.
\<close>

theorem generate_shape_counterexample:
  "quizType initialQuizState = ''mcq''
   \<and> quizData (fst (handleGenerate thinParse online uuidOf False text51 initialQuizState))
     = Some \<lparr>quizTitle = ''Thin'',
        questions =
          [\<lparr>qid = ''uuid-0'', qtype = ''mcq'', question = ''Is it?'', options = Some [''yes'', ''no''],
            correctAnswer = Some ''maybe'', modelAnswer = None, explanation = ''None.'',
            userAnswer = Some []\<rparr>]\<rparr>"
  by (simp add: handleGenerate_unfold text51_ready fetchQuiz_first_success thin_attempt
      handleGenerate_finish_def handleGenerate_start_def initialQuizState_def thinQuiz_def
      questionsWithIds_def uuidOf_0)


section \<open>Scoring a submission\<close>

text \<open>
  Claim C4, at the input on which the code leaves the policy that the claim states. The
  response schema does not require \<open>correctAnswer\<close>, so a choice question may arrive
  without a canonical answer; when the student leaves such a question unanswered,
  \<open>handleSubmit\<close> compares two absent values, finds them equal and scores the question
  correct. A quiz of three such questions, submitted blank, scores 3 and hands an attempt
  of 3 out of 3 to \<open>saveProgress\<close>, whereas by the stated policy no selected option is
  equal to a canonical answer and the score is 0. For a quiz of one such question the
  feedback reads "Your Choice: No Answer", "Correct Choice: undefined", "Status: CORRECT".
  On every other input the two agree (\<open>countCorrect_spec\<close>).
\<close>

theorem unanswered_keyless_choice_scored_correct:
  "map correctAnswer (questions keylessQuiz) = [None, None, None]
   \<and> map (\<lambda>q. currentAnswers keylessState (qid q)) (questions keylessQuiz) = [None, None, None]
   \<and> score (fst (handleSubmit 0 keylessState)) = 3
   \<and> map attempt_score (savedAttempts (snd (handleSubmit 0 keylessState))) = [3]
   \<and> map attempt_total (savedAttempts (snd (handleSubmit 0 keylessState))) = [3]
   \<and> spec_score (questions keylessQuiz) (currentAnswers keylessState) = 0
   \<and> isCorrect (keylessQuestion ''k1'') None
   \<and> \<not> spec_correct (keylessQuestion ''k1'') None
   \<and> handleSubmit 7 oneKeylessState =
       (oneKeylessState
          \<lparr>score := 1,
           feedback :=
             ''Quiz: T (MCQ)'' @ newline @ newline
             @ ''1. Which one?'' @ newline
             @ ''   Your Choice: No Answer'' @ newline
             @ ''   Correct Choice: undefined'' @ newline
             @ ''   Status: CORRECT'' @ newline
             @ ''   Explanation: See the text.'' @ newline @ newline,
           isSubmitted := True\<rparr>,
        [SaveProgress \<lparr>attempt_type = ''mcq'', attempt_score = 1, attempt_total = 1,
           timestamp = 7, attempt_quizTitle = ''T''\<rparr>])"
proof -
  obtain fb where h: "handleSubmit 0 keylessState =
     (keylessState\<lparr>score := countCorrect (questions keylessQuiz) (currentAnswers keylessState),
        feedback := fb, isSubmitted := True\<rparr>,
      [SaveProgress \<lparr>attempt_type = quizType keylessState,
         attempt_score = countCorrect (questions keylessQuiz) (currentAnswers keylessState),
         attempt_total = length (questions keylessQuiz),
         timestamp = 0,
         attempt_quizTitle = quizTitle keylessQuiz\<rparr>])"
    using handleSubmit_result [OF keyless_hasQuiz, of keylessQuiz 0]
    by (auto simp: keylessState_def)
  have c: "countCorrect (questions keylessQuiz) (currentAnswers keylessState) = 3"
    by (simp add: countCorrect_def isCorrect_def keylessQuiz_def keylessState_def keylessQuestion_def)
  show ?thesis
    unfolding h c oneKeyless_submit
    by (simp add: savedAttempts_def spec_score_def spec_correct_def isCorrect_def
        keylessQuiz_def keylessState_def keylessQuestion_def)
qed


section \<open>Retry and back-off\<close>

text \<open>
  Claim C5, as the code has it. Each of \<open>fetchQuiz\<close> and \<open>fetchChatResponse\<close> makes
  one, two or three attempts and waits 1000 ms after the first failed attempt and 2000 ms
  after the second; nothing is waited after the third, so no delay of 4000 ms occurs.
  When all three attempts fail there are exactly three network calls, with the delays of
  1000 and 2000 ms before the last one; \<open>fetchQuiz\<close> then throws the Error "Failed to
  generate quiz after multiple retries." to its caller, and \<open>fetchChatResponse\<close> returns
  its fixed reply. \<open>fetchChatResponse\<close> always returns a reply and never throws.
\<close>

theorem retry_backoff_exhaustion:
  "fetchCount (snd (fetchQuiz J fetch doc qt)) \<in> {1, 2, 3}
   \<and> sleeps (snd (fetchQuiz J fetch doc qt))
       = take (fetchCount (snd (fetchQuiz J fetch doc qt)) - 1) [1000, 2000]
   \<and> fetchCount (snd (fetchChatResponse fetch h m t)) \<in> {1, 2, 3}
   \<and> sleeps (snd (fetchChatResponse fetch h m t))
       = take (fetchCount (snd (fetchChatResponse fetch h m t)) - 1) [1000, 2000]
   \<and> ((\<forall>i<3. isl (quizAttempt J (fetch (quizPayload doc qt) i))) \<longrightarrow>
        fetchQuiz J fetch doc qt =
          (Thrown ''Failed to generate quiz after multiple retries.'',
           [Fetch (quizPayload doc qt), ConsoleError ''Attempt 1 failed:'', Sleep 1000,
            Fetch (quizPayload doc qt), ConsoleError ''Attempt 2 failed:'', Sleep 2000,
            Fetch (quizPayload doc qt), ConsoleError ''Attempt 3 failed:'']))
   \<and> ((\<forall>i<3. isl (chatAttempt (fetch (chatPayload h m t) i))) \<longrightarrow>
        fetchChatResponse fetch h m t =
          (Returned (Some fallbackReply),
           [Fetch (chatPayload h m t), ConsoleError ''Chat attempt 1 failed:'', Sleep 1000,
            Fetch (chatPayload h m t), ConsoleError ''Chat attempt 2 failed:'', Sleep 2000,
            Fetch (chatPayload h m t), ConsoleError ''Chat attempt 3 failed:'']))
   \<and> (\<exists>r. fst (fetchChatResponse fetch h m t) = Returned (Some r))"
  using fetchQuiz_bounds [of J fetch doc qt] fetchChatResponse_bounds [of fetch h m t]
    fetchQuiz_all_fail [of J fetch doc qt] fetchChatResponse_all_fail [of fetch h m t]
    fetchChatResponse_returns [of fetch h m t]
  by blast

text \<open>
  Three answers with status 503 to a chat request (transport failures), and three answers
  to a quiz request whose text does not parse (parse failures).
\<close>

theorem retry_backoff_exhaustion_witness:
  "fst (fetchChatResponse unavailable [] ''What is physics?'' text51) = Returned (Some fallbackReply)
   \<and> fetchCount (snd (fetchChatResponse unavailable [] ''What is physics?'' text51)) = 3
   \<and> sleeps (snd (fetchChatResponse unavailable [] ''What is physics?'' text51)) = [1000, 2000]
   \<and> fst (fetchQuiz noParse online text51 ''saq'')
       = Thrown ''Failed to generate quiz after multiple retries.''
   \<and> fetchCount (snd (fetchQuiz noParse online text51 ''saq'')) = 3
   \<and> sleeps (snd (fetchQuiz noParse online text51 ''saq'')) = [1000, 2000]"
proof -
  have 1: "\<forall>i<3. isl (chatAttempt (unavailable (chatPayload [] ''What is physics?'' text51) i))"
    by (simp add: chatAttempt_def unavailable_def)
  have 2: "\<forall>i<3. isl (quizAttempt noParse (online (quizPayload text51 ''saq'') i))"
    by (simp add: quizAttempt_def online_def noParse_def)
  note t = retry_backoff_exhaustion [of noParse online text51 "''saq''" "[]" "''What is physics?''" text51]
  note t' = retry_backoff_exhaustion [of noParse unavailable text51 "''saq''" "[]" "''What is physics?''" text51]
  from t' 1 have a: "fetchChatResponse unavailable [] ''What is physics?'' text51 =
          (Returned (Some fallbackReply),
           [Fetch (chatPayload [] ''What is physics?'' text51), ConsoleError ''Chat attempt 1 failed:'', Sleep 1000,
            Fetch (chatPayload [] ''What is physics?'' text51), ConsoleError ''Chat attempt 2 failed:'', Sleep 2000,
            Fetch (chatPayload [] ''What is physics?'' text51), ConsoleError ''Chat attempt 3 failed:''])"
    by blast
  from t 2 have b: "fetchQuiz noParse online text51 ''saq'' =
          (Thrown ''Failed to generate quiz after multiple retries.'',
           [Fetch (quizPayload text51 ''saq''), ConsoleError ''Attempt 1 failed:'', Sleep 1000,
            Fetch (quizPayload text51 ''saq''), ConsoleError ''Attempt 2 failed:'', Sleep 2000,
            Fetch (quizPayload text51 ''saq''), ConsoleError ''Attempt 3 failed:''])"
    by blast
  show ?thesis unfolding a b by simp
qed

text \<open>
  With the network down, \<open>fetchQuiz\<close> ends by throwing, after three calls and the delays
  1000 and 2000 ms; there is no delay of 4000 ms.
\<close>

theorem retry_backoff_counterexample:
  "fst (fetchQuiz noParse offline text51 ''mcq'')
     = Thrown ''Failed to generate quiz after multiple retries.''
   \<and> fetchCount (snd (fetchQuiz noParse offline text51 ''mcq'')) = 3
   \<and> sleeps (snd (fetchQuiz noParse offline text51 ''mcq'')) = [1000, 2000]
   \<and> 4000 \<notin> set (sleeps (snd (fetchQuiz noParse offline text51 ''mcq'')))"
  by (simp add: fetchQuiz_all_fail offline_fails)


section \<open>One send in flight\<close>

text \<open>
  Claim C6, as the code has it. The busy flag \<open>isTyping\<close> belongs to the component,
  not to a thread. In every state the component can reach, at most one call of
  \<open>handleSendMessage\<close> is in flight over all threads together (hence at most one on
  any thread), the flag is set exactly while a call is in flight, and while it is set a
  send on any thread, the one with the pending call or another, changes nothing. Two
  threads are never in flight at the same time.
\<close>

theorem single_send_in_flight:
  "length (inflight (chat_run evs)) \<le> 1
   \<and> (isTyping (ui (chat_run evs)) \<longleftrightarrow> inflight (chat_run evs) \<noteq> [])
   \<and> length (inflightOn i (chat_run evs)) \<le> 1
   \<and> (inflight (chat_run evs) \<noteq> [] \<longrightarrow>
        chat_step (chat_run evs) (SendMessage pdfText) = chat_run evs)"
proof (intro conjI impI)
  show "length (inflight (chat_run evs)) \<le> 1" using busy_run by blast
  show "isTyping (ui (chat_run evs)) \<longleftrightarrow> inflight (chat_run evs) \<noteq> []"
    using busy_run by blast
  have "length (inflightOn i (chat_run evs)) \<le> length (inflight (chat_run evs))"
    by (simp add: inflightOn_def)
  then show "length (inflightOn i (chat_run evs)) \<le> 1"
    using busy_run [of evs] by linarith
next
  assume "inflight (chat_run evs) \<noteq> []"
  then have "isTyping (ui (chat_run evs))" using busy_run by blast
  then show "chat_step (chat_run evs) (SendMessage pdfText) = chat_run evs"
    by (simp add: handleSendMessage_start_busy)
qed

text \<open>
  After one send the call is in flight and the flag is set; a second send is a no-op, with
  the input box empty and also with new text in it.
\<close>

theorem single_send_in_flight_witness:
  "askedWorld = chat_run [SetInputMessage ''What is physics?'', SendMessage text51]
   \<and> length (inflight askedWorld) = 1
   \<and> isTyping (ui askedWorld)
   \<and> chat_step askedWorld (SendMessage text51) = askedWorld
   \<and> chat_step (chat_step askedWorld (SetInputMessage ''Again?'')) (SendMessage text51)
       = chat_step askedWorld (SetInputMessage ''Again?'')"
proof -
  have r: "askedWorld = chat_run [SetInputMessage ''What is physics?'', SendMessage text51]"
    by (simp add: askedWorld_def chat_run_def)
  have r2: "chat_step askedWorld (SetInputMessage ''Again?'')
      = chat_run [SetInputMessage ''What is physics?'', SendMessage text51, SetInputMessage ''Again?'']"
    by (simp add: askedWorld_def chat_run_def)
  have n: "inflight askedWorld \<noteq> []" by (simp add: askedWorld_eq)
  have n2: "inflight (chat_step askedWorld (SetInputMessage ''Again?'')) \<noteq> []"
    by (simp add: askedWorld_eq)
  have l: "length (inflight askedWorld) = 1" by (simp add: askedWorld_eq)
  note t1 = single_send_in_flight [of "[SetInputMessage ''What is physics?'', SendMessage text51]" 1 text51]
  note t2 = single_send_in_flight [of "[SetInputMessage ''What is physics?'', SendMessage text51, SetInputMessage ''Again?'']" 1 text51]
  from t1 n have a: "isTyping (ui askedWorld)" "chat_step askedWorld (SendMessage text51) = askedWorld"
    unfolding r [symmetric] by blast+
  from t2 n2 have b: "chat_step (chat_step askedWorld (SetInputMessage ''Again?'')) (SendMessage text51)
       = chat_step askedWorld (SetInputMessage ''Again?'')"
    unfolding r2 [symmetric] by blast
  from r l a b show ?thesis by blast
qed

text \<open>
  A call is in flight on thread 1; the user opens thread 2, which has no call in flight,
  and sends on it: nothing happens, whether the input box holds text or not (the box is
  disabled while the flag is set), and thread 2 gets no call in flight.
\<close>

theorem concurrent_threads_counterexample:
  "activeChatId (ui busyWorld) = 2
   \<and> trim (inputMessage (ui busyWorld)) = ''And chemistry?''
   \<and> map sentOn (inflight busyWorld) = [1]
   \<and> inflightOn 2 busyWorld = []
   \<and> chat_step busyWorld (SendMessage text51) = busyWorld
   \<and> inflightOn 2 (chat_step busyWorld (SendMessage text51)) = []
   \<and> chat_step switchedWorld (SendMessage text51) = switchedWorld"
  by (simp add: busyWorld_eq switchedWorld_eq handleSendMessage_start_def inflightOn_def trim_def
      isWhitespace_def)


section \<open>A send keeps the user's message\<close>




section \<open>Submitting and the submitted flag\<close>

text \<open>
  Claim C8, as the code has it. While the submitted flag is set an answer edit changes
  nothing; while it is not, the edit is stored. A submit of a non-empty quiz sets the flag
  (so an edit right after it is rejected), leaves the quiz and the answers as they are and
  hands exactly one attempt to \<open>saveProgress\<close>; without a quiz it does nothing. The
  flag is cleared at the start of a generate that passes the readiness gate (a generate
  stopped by the gate changes nothing, and the settling of a pending generate leaves the
  flag as it finds it) and also by closing the feedback ("Close Feedback", or "Continue
  Revision" on the result modal): after that an edit of the submitted quiz is accepted
  again.
\<close>

theorem submit_locks_until_feedback_closed:
  "(isSubmitted s \<longrightarrow> handleAnswerChange i v s = s)
   \<and> (\<not> isSubmitted s \<longrightarrow>
        handleAnswerChange i v s = s\<lparr>currentAnswers := (currentAnswers s)(i \<mapsto> v)\<rparr>)
   \<and> (hasQuiz s \<longrightarrow>
        isSubmitted (fst (handleSubmit now s))
        \<and> handleAnswerChange i v (fst (handleSubmit now s)) = fst (handleSubmit now s)
        \<and> length (savedAttempts (snd (handleSubmit now s))) = 1
        \<and> quizData (fst (handleSubmit now s)) = quizData s
        \<and> currentAnswers (fst (handleSubmit now s)) = currentAnswers s)
   \<and> (\<not> hasQuiz s \<longrightarrow> handleSubmit now s = (s, []))
   \<and> (isQuizReady pl pt \<longrightarrow> \<not> isSubmitted (fst (handleGenerate_begin pl pt s)))
   \<and> (\<not> isQuizReady pl pt \<longrightarrow> fst (handleGenerate_begin pl pt s) = s)
   \<and> isSubmitted (fst (handleGenerate_settle J fetch uuid call t)) = isSubmitted t
   \<and> closeFeedback s = s\<lparr>isSubmitted := False\<rparr>
   \<and> (hasQuiz s \<longrightarrow>
        handleAnswerChange i v (closeFeedback (fst (handleSubmit now s)))
          = (fst (handleSubmit now s))
              \<lparr>isSubmitted := False, currentAnswers := (currentAnswers s)(i \<mapsto> v)\<rparr>)"
proof (intro conjI impI)
  show "closeFeedback s = s\<lparr>isSubmitted := False\<rparr>" by (simp add: closeFeedback_def)
  { assume "isSubmitted s"
    then show "handleAnswerChange i v s = s" by (simp add: handleAnswerChange_def) }
  { assume "\<not> isSubmitted s"
    then show "handleAnswerChange i v s = s\<lparr>currentAnswers := (currentAnswers s)(i \<mapsto> v)\<rparr>"
      by (simp add: handleAnswerChange_def) }
  { assume "\<not> hasQuiz s"
    then show "handleSubmit now s = (s, [])" by (rule handleSubmit_noQuiz) }
  show "isSubmitted (fst (handleGenerate_settle J fetch uuid call t)) = isSubmitted t"
    by (rule handleGenerate_settle_isSubmitted)
  { assume "isQuizReady pl pt"
    then show "\<not> isSubmitted (fst (handleGenerate_begin pl pt s))"
      by (simp add: handleGenerate_begin_ready) }
  { assume "\<not> isQuizReady pl pt"
    then show "fst (handleGenerate_begin pl pt s) = s"
      by (simp add: handleGenerate_begin_not_ready) }
  { assume hq: "hasQuiz s"
    then obtain qd where qd: "quizData s = Some qd" using hasQuiz_Some by blast
    obtain fb where h: "handleSubmit now s =
       (s\<lparr>score := countCorrect (questions qd) (currentAnswers s), feedback := fb, isSubmitted := True\<rparr>,
        [SaveProgress \<lparr>attempt_type = quizType s,
           attempt_score = countCorrect (questions qd) (currentAnswers s),
           attempt_total = length (questions qd),
           timestamp = now,
           attempt_quizTitle = quizTitle qd\<rparr>])"
      using handleSubmit_result [OF hq qd] by blast
    show "isSubmitted (fst (handleSubmit now s))" by (simp add: h)
    show "handleAnswerChange i v (fst (handleSubmit now s)) = fst (handleSubmit now s)"
      by (simp add: h handleAnswerChange_def)
    show "length (savedAttempts (snd (handleSubmit now s))) = 1"
      by (simp add: h savedAttempts_def)
    show "quizData (fst (handleSubmit now s)) = quizData s" by (simp add: h)
    show "currentAnswers (fst (handleSubmit now s)) = currentAnswers s" by (simp add: h)
    show "handleAnswerChange i v (closeFeedback (fst (handleSubmit now s)))
          = (fst (handleSubmit now s))
              \<lparr>isSubmitted := False, currentAnswers := (currentAnswers s)(i \<mapsto> v)\<rparr>"
      by (simp add: h handleAnswerChange_def closeFeedback_def) }
qed

text \<open>
  The choice quiz: submitted, it rejects edits and has emitted one attempt; the start of
  a generate clears the flag, a generate while the text is loading does not, and a pending
  generate that settles on the submitted quiz leaves the flag set; without a quiz a submit
  does nothing; before the submit an edit is stored; and after the feedback is closed an
  edit is stored again.
\<close>

theorem submit_locks_until_feedback_closed_witness:
  "isSubmitted (fst (handleSubmit 0 choiceState))
   \<and> handleAnswerChange ''q2'' ''B'' (fst (handleSubmit 0 choiceState)) = fst (handleSubmit 0 choiceState)
   \<and> handleAnswerChange ''q1'' ''D'' (fst (handleSubmit 0 choiceState)) = fst (handleSubmit 0 choiceState)
   \<and> length (savedAttempts (snd (handleSubmit 0 choiceState))) = 1
   \<and> handleSubmit 0 initialQuizState = (initialQuizState, [])
   \<and> \<not> isSubmitted (fst (handleGenerate_begin False text51 (fst (handleSubmit 0 choiceState))))
   \<and> fst (handleGenerate_begin True text51 (fst (handleSubmit 0 choiceState)))
       = fst (handleSubmit 0 choiceState)
   \<and> isSubmitted (fst (handleGenerate_settle noParse offline uuidOf textCall
                          (fst (handleSubmit 0 choiceState))))
   \<and> currentAnswers (handleAnswerChange ''q3'' ''C'' choiceState) ''q3'' = Some ''C''
   \<and> currentAnswers reopenedState ''q2'' = Some ''B''
   \<and> \<not> isSubmitted reopenedState"
proof -
  have 1: "\<not> hasQuiz initialQuizState" by (simp add: hasQuiz_def initialQuizState_def)
  have 2: "\<not> isSubmitted choiceState" by (simp add: choiceState_def)
  note t = submit_locks_until_feedback_closed
  from t [of choiceState "''q2''" "''B''" 0] choiceState_hasQuiz
  have a: "isSubmitted (fst (handleSubmit 0 choiceState))"
    "handleAnswerChange ''q2'' ''B'' (fst (handleSubmit 0 choiceState)) = fst (handleSubmit 0 choiceState)"
    "length (savedAttempts (snd (handleSubmit 0 choiceState))) = 1"
    and r: "handleAnswerChange ''q2'' ''B'' (closeFeedback (fst (handleSubmit 0 choiceState)))
          = (fst (handleSubmit 0 choiceState))
              \<lparr>isSubmitted := False, currentAnswers := (currentAnswers choiceState)(''q2'' \<mapsto> ''B'')\<rparr>"
    by blast+
  from t [of "fst (handleSubmit 0 choiceState)" "''q1''" "''D''"] a(1)
  have a': "handleAnswerChange ''q1'' ''D'' (fst (handleSubmit 0 choiceState)) = fst (handleSubmit 0 choiceState)"
    by blast
  from t [of initialQuizState _ _ 0] 1 have b: "handleSubmit 0 initialQuizState = (initialQuizState, [])"
    by blast
  from t [of "fst (handleSubmit 0 choiceState)" _ _ _ False text51] text51_ready
  have c: "\<not> isSubmitted (fst (handleGenerate_begin False text51 (fst (handleSubmit 0 choiceState))))"
    by blast
  have nr: "\<not> isQuizReady True text51" by (simp add: isQuizReady_def)
  from t [of "fst (handleSubmit 0 choiceState)" _ _ _ True text51] nr
  have c': "fst (handleGenerate_begin True text51 (fst (handleSubmit 0 choiceState)))
       = fst (handleSubmit 0 choiceState)"
    by blast
  from t [of _ _ _ _ _ _ noParse offline uuidOf textCall "fst (handleSubmit 0 choiceState)"] a(1)
  have c'': "isSubmitted (fst (handleGenerate_settle noParse offline uuidOf textCall
                          (fst (handleSubmit 0 choiceState))))"
    by blast
  from t [of choiceState "''q3''" "''C''"] 2
  have "handleAnswerChange ''q3'' ''C'' choiceState
      = choiceState\<lparr>currentAnswers := (currentAnswers choiceState)(''q3'' \<mapsto> ''C'')\<rparr>"
    by blast
  then have d: "currentAnswers (handleAnswerChange ''q3'' ''C'' choiceState) ''q3'' = Some ''C''"
    by simp
  from r have e: "currentAnswers reopenedState ''q2'' = Some ''B''" "\<not> isSubmitted reopenedState"
    by (simp_all add: reopenedState_def)
  from a a' b c c' c'' d e show ?thesis by blast
qed

text \<open>
  The choice quiz is submitted with score 1. The feedback is closed, with no generate in
  between: the flag is clear, the answer to the second question is changed and stored, and
  a second submit of the same quiz scores 2 and emits a further attempt.
\<close>

theorem submit_terminal_counterexample:
  "isSubmitted (fst (handleSubmit 0 choiceState))
   \<and> score (fst (handleSubmit 0 choiceState)) = 1
   \<and> \<not> isSubmitted (closeFeedback (fst (handleSubmit 0 choiceState)))
   \<and> currentAnswers choiceState ''q2'' = Some ''D''
   \<and> currentAnswers reopenedState ''q2'' = Some ''B''
   \<and> quizData reopenedState = Some choiceQuiz
   \<and> score (fst (handleSubmit 1 reopenedState)) = 2
   \<and> length (savedAttempts (snd (handleSubmit 1 reopenedState))) = 1"
proof -
  obtain fb where h: "handleSubmit 0 choiceState =
       (choiceState\<lparr>score := countCorrect (questions choiceQuiz) (currentAnswers choiceState),
          feedback := fb, isSubmitted := True\<rparr>,
        [SaveProgress \<lparr>attempt_type = quizType choiceState,
           attempt_score = countCorrect (questions choiceQuiz) (currentAnswers choiceState),
           attempt_total = length (questions choiceQuiz),
           timestamp = 0,
           attempt_quizTitle = quizTitle choiceQuiz\<rparr>])"
    using handleSubmit_result [OF choiceState_hasQuiz, of choiceQuiz 0]
    by (auto simp: choiceState_def)
  have s1: "countCorrect (questions choiceQuiz) (currentAnswers choiceState) = 1"
    by (simp add: countCorrect_def isCorrect_def choiceQuiz_def choiceState_def choiceQuestion_def)
  have r: "reopenedState = choiceState\<lparr>score := 1, feedback := fb, isSubmitted := False,
       currentAnswers := (currentAnswers choiceState)(''q2'' \<mapsto> ''B'')\<rparr>"
    by (simp add: reopenedState_def h s1 closeFeedback_def handleAnswerChange_def)
  have hq: "hasQuiz reopenedState" and qd: "quizData reopenedState = Some choiceQuiz"
    by (simp_all add: r hasQuiz_def choiceState_def choiceQuiz_def)
  obtain fb' where h2: "handleSubmit 1 reopenedState =
       (reopenedState\<lparr>score := countCorrect (questions choiceQuiz) (currentAnswers reopenedState),
          feedback := fb', isSubmitted := True\<rparr>,
        [SaveProgress \<lparr>attempt_type = quizType reopenedState,
           attempt_score = countCorrect (questions choiceQuiz) (currentAnswers reopenedState),
           attempt_total = length (questions choiceQuiz),
           timestamp = 1,
           attempt_quizTitle = quizTitle choiceQuiz\<rparr>])"
    using handleSubmit_result [OF hq qd, of 1] by blast
  have s2: "countCorrect (questions choiceQuiz) (currentAnswers reopenedState) = 2"
    by (simp add: r countCorrect_def isCorrect_def choiceQuiz_def choiceState_def choiceQuestion_def)
  show ?thesis
    unfolding h2 s2 using qd
    by (simp add: h s1 closeFeedback_def savedAttempts_def r) (simp add: choiceState_def)
qed


section \<open>The external search tool\<close>

text \<open>
  Claim C9, as the code has it. The chat request carries the search tool exactly when
  the document text is empty or the current message, in lower case, contains one of the
  two phrases "what is the latest" and "recent news"; in every other case its list of
  tools is empty. The contents of the request are the thread history followed by one
  user message: the context block with the first 2500 characters of the document (nothing
  when there is no document), two line feeds and the current message. Every network call
  of \<open>fetchChatResponse\<close> sends that request, and there is at least one. The word
  "latest" alone is not one of the phrases.
\<close>

theorem external_tool_rule:
  "(tools (chatPayload hist m pdfText) = Some [''google_search'']
      \<longleftrightarrow> pdfText = [] \<or> (\<exists>p\<in>set recencyPhrases. sublist p (toLowerCase m)))
   \<and> (tools (chatPayload hist m pdfText) = Some []
      \<longleftrightarrow> \<not> (pdfText = [] \<or> (\<exists>p\<in>set recencyPhrases. sublist p (toLowerCase m))))
   \<and> contents (chatPayload hist m pdfText)
       = hist
         @ [\<lparr>role = Some ''user'',
              parts =
                [\<lparr>part_text =
                    (if pdfText = [] then []
                     else ''[CONTEXT FROM SELECTED PDF: The student is revising from this material: ''
                          @ take 2500 pdfText @ ''...]'')
                    @ [CHR 0x0A, CHR 0x0A] @ m,
                  sources = None\<rparr>]\<rparr>]
   \<and> (\<forall>e\<in>set (snd (fetchChatResponse fetch hist m pdfText)).
         \<forall>p. e = Fetch p \<longrightarrow> p = chatPayload hist m pdfText)
   \<and> Fetch (chatPayload hist m pdfText) \<in> set (snd (fetchChatResponse fetch hist m pdfText))"
proof -
  have "take (min (length pdfText) 2500) pdfText = take 2500 pdfText"
    by (simp add: min_def)
  then have c: "contents (chatPayload hist m pdfText)
       = hist
         @ [\<lparr>role = Some ''user'',
              parts =
                [\<lparr>part_text =
                    (if pdfText = [] then []
                     else ''[CONTEXT FROM SELECTED PDF: The student is revising from this material: ''
                          @ take 2500 pdfText @ ''...]'')
                    @ [CHR 0x0A, CHR 0x0A] @ m,
                  sources = None\<rparr>]\<rparr>]"
    by (simp add: chatPayload_def contextPart_def newline_def)
  have f: "Fetch (chatPayload hist m pdfText) \<in> set (snd (fetchChatResponse fetch hist m pdfText))"
    by (simp add: fetchChatResponse_def split: sum.splits)
  have t: "tools (chatPayload hist m pdfText) = Some [''google_search'']
      \<longleftrightarrow> pdfText = [] \<or> (\<exists>p\<in>set recencyPhrases. sublist p (toLowerCase m))"
    by (simp add: chatPayload_def useGoogleSearch_def recencyPhrases_def includesStr_sublist)
  have t': "tools (chatPayload hist m pdfText) = Some []
      \<longleftrightarrow> \<not> (pdfText = [] \<or> (\<exists>p\<in>set recencyPhrases. sublist p (toLowerCase m)))"
    by (simp add: chatPayload_def useGoogleSearch_def recencyPhrases_def includesStr_sublist)
  note a = fetchChatResponse_fetches [of fetch hist m pdfText]
  show ?thesis
    apply (intro conjI)
        apply (rule t)
       apply (rule t')
      apply (rule c)
     apply (rule a)
    apply (rule f)
    done
qed

text \<open>
  A message that contains "What is the LATEST", a message without a document, and a plain
  question about the document, whose three network calls all carry the chat request; with
  a short document the request holds the context block, the question and no tool.
\<close>

theorem external_tool_rule_witness:
  "tools (chatPayload [] ''What is the LATEST on fusion?'' text51) = Some [''google_search'']
   \<and> tools (chatPayload [] ''Explain unification'' []) = Some [''google_search'']
   \<and> tools (chatPayload [] ''Explain unification'' text51) = Some []
   \<and> fetchCount (snd (fetchChatResponse unavailable [] ''Explain unification'' text51)) = 3
   \<and> Fetch (quizPayload text51 ''mcq'')
       \<notin> set (snd (fetchChatResponse unavailable [] ''Explain unification'' text51))
   \<and> contents (chatPayload [] ''Explain unification'' ''Unification explains much by few laws.'')
       = [\<lparr>role = Some ''user'',
            parts =
              [\<lparr>part_text =
                  ''[CONTEXT FROM SELECTED PDF: The student is revising from this material: Unification explains much by few laws....]''
                  @ [CHR 0x0A, CHR 0x0A] @ ''Explain unification'',
                sources = None\<rparr>]\<rparr>]
   \<and> tools (chatPayload [] ''Explain unification'' ''Unification explains much by few laws.'')
       = Some []"
proof -
  have 4: "\<not> (''Unification explains much by few laws.'' = []
       \<or> (\<exists>p\<in>set recencyPhrases. sublist p (toLowerCase ''Explain unification'')))"
    unfolding includesStr_sublist [symmetric]
    by (simp add: recencyPhrases_def toLowerCase_def lowerChar_def upperLetters_def lowerLetters_def)
  note r = external_tool_rule [of "[]" "''Explain unification''" "''Unification explains much by few laws.''" unavailable]
  from r [THEN conjunct2, THEN conjunct2, THEN conjunct1]
  have e: "contents (chatPayload [] ''Explain unification'' ''Unification explains much by few laws.'')
       = [\<lparr>role = Some ''user'',
            parts =
              [\<lparr>part_text =
                  ''[CONTEXT FROM SELECTED PDF: The student is revising from this material: Unification explains much by few laws....]''
                  @ [CHR 0x0A, CHR 0x0A] @ ''Explain unification'',
                sources = None\<rparr>]\<rparr>]"
    by simp
  from r [THEN conjunct2, THEN conjunct1] 4
  have e': "tools (chatPayload [] ''Explain unification'' ''Unification explains much by few laws.'')
       = Some []"
    by (rule iffD2)
  have l: "toLowerCase ''What is the LATEST on fusion?'' = [] @ ''what is the latest'' @ '' on fusion?''"
    by (simp add: toLowerCase_def lowerChar_def upperLetters_def lowerLetters_def)
  have 1: "\<exists>p\<in>set recencyPhrases. sublist p (toLowerCase ''What is the LATEST on fusion?'')"
    unfolding recencyPhrases_def sublist_def l by auto
  have 2: "\<not> (text51 = [] \<or> (\<exists>p\<in>set recencyPhrases. sublist p (toLowerCase ''Explain unification'')))"
    unfolding includesStr_sublist [symmetric]
    by (simp add: recencyPhrases_def text51_def toLowerCase_def lowerChar_def upperLetters_def lowerLetters_def)
  have 3: "fetchCount (snd (fetchChatResponse unavailable [] ''Explain unification'' text51)) = 3"
    by (simp add: fetchChatResponse_all_fail chatAttempt_def unavailable_def)
  from external_tool_rule [of "[]" "''What is the LATEST on fusion?''" text51 unavailable, THEN conjunct1] 1
  have a: "tools (chatPayload [] ''What is the LATEST on fusion?'' text51) = Some [''google_search'']"
    by blast
  from external_tool_rule [of "[]" "''Explain unification''" "[]" unavailable, THEN conjunct1]
  have b: "tools (chatPayload [] ''Explain unification'' []) = Some [''google_search'']"
    by blast
  note r' = external_tool_rule [of "[]" "''Explain unification''" text51 unavailable]
  from r' [THEN conjunct2, THEN conjunct1] 2
  have c: "tools (chatPayload [] ''Explain unification'' text51) = Some []"
    by blast
  from r' [THEN conjunct2, THEN conjunct2, THEN conjunct2, THEN conjunct1]
  have "\<forall>e\<in>set (snd (fetchChatResponse unavailable [] ''Explain unification'' text51)).
         \<forall>p. e = Fetch p \<longrightarrow> p = chatPayload [] ''Explain unification'' text51"
    by blast
  then have d: "Fetch (quizPayload text51 ''mcq'')
       \<notin> set (snd (fetchChatResponse unavailable [] ''Explain unification'' text51))"
    using payload_differs by blast
  from a b c d e e' 3 show ?thesis by (intro conjI)
qed

text \<open>
  With a document, the message "latest" and a message that contains the word "latest"
  carry no search tool.
\<close>

theorem external_tool_counterexample:
  "tools (chatPayload [] ''latest'' text51) = Some []
   \<and> tools (chatPayload [] ''Any latest results?'' text51) = Some []"
  by (simp add: chatPayload_def useGoogleSearch_def text51_def toLowerCase_def lowerChar_def upperLetters_def lowerLetters_def)


section \<open>A blank send\<close>

text \<open>
  Claim C10. When the input holds only white space (or nothing), its trimmed text is
  empty and a send is a no-op: \<open>handleSendMessage\<close> returns the state as it is,
  with every thread and its history, and issues no call of \<open>fetchChatResponse\<close>; the
  component's in-flight calls and effects are unchanged.
\<close>

theorem blank_send_is_noop:
  "(\<forall>c\<in>set (inputMessage (ui w)). isWhitespace c) \<longrightarrow>
     trim (inputMessage (ui w)) = []
     \<and> handleSendMessage_start pdfText (ui w) = (ui w, None)
     \<and> chat_step w (SendMessage pdfText) = w"
  by (simp add: trim_empty_iff handleSendMessage_start_def)

text \<open>An input of a space, a tab and a space, and the empty input of the initial state.\<close>

theorem blank_send_is_noop_witness:
  "inputMessage (ui blankWorld) = [CHR '' '', CHR 0x09, CHR '' '']
   \<and> handleSendMessage_start text51 (ui blankWorld) = (ui blankWorld, None)
   \<and> chat_step blankWorld (SendMessage text51) = blankWorld
   \<and> handleSendMessage_start text51 (ui initialChatWorld) = (ui initialChatWorld, None)"
proof -
  have i: "inputMessage (ui blankWorld) = [CHR '' '', CHR 0x09, CHR '' '']"
    by (simp add: blankWorld_def)
  have 1: "\<forall>c\<in>set (inputMessage (ui blankWorld)). isWhitespace c"
    unfolding i by (simp add: isWhitespace_def)
  have 2: "\<forall>c\<in>set (inputMessage (ui initialChatWorld)). isWhitespace c"
    by (simp add: initialChatWorld_def initialChatState_def)
  from blank_send_is_noop [of blankWorld text51] blank_send_is_noop [of initialChatWorld text51] 1 2 i
  show ?thesis by blast
qed

end
